theory Spec2Isabelle
  imports Complex_Main "HOL-Library.Sublist"
begin

section \<open>Data model of sentinel.py\<close>

text \<open>
  Python floats (\<open>Policy.ratio\<close>, \<open>torrent.ratio\<close>, \<open>time.time()\<close>) are modelled as
  \<open>real\<close>: the code only compares them, subtracts two clock readings and divides by 60;
  no property below depends on rounding. Python ints are \<open>int\<close>. Strings are ASCII
  \<open>string\<close>s. Exceptions are values of \<open>exn\<close>; a computation that may raise returns
  \<open>exn + 'a\<close> with \<open>Inl\<close> the exception.
\<close>

type_synonym hash = string

datatype exn =
    TypeError
  | LoginFailed
  | APIConnectionError
  | APIError
  | OtherException

text \<open>
  \<open>LoginFailed\<close> and \<open>APIConnectionError\<close> are subclasses of \<open>qbittorrentapi.APIError\<close>;
  the constructor \<open>APIError\<close> stands for any other instance of that class, and
  \<open>OtherException\<close> for an exception outside that hierarchy.
\<close>

fun is_APIError :: "exn \<Rightarrow> bool" where
  "is_APIError LoginFailed = True"
| "is_APIError APIConnectionError = True"
| "is_APIError APIError = True"
| "is_APIError TypeError = False"
| "is_APIError OtherException = False"

record Policy =
  ratio :: real
  seeding_minutes :: int
  idle_minutes :: int
  action :: string
  include_tags :: "string list"
  exclude_tags :: "string list"

datatype pyobj = PyStr string | PyInt int | PyBool bool

record Config =
  qbittorrent :: "(string \<times> pyobj) list"
  default_policy :: Policy
  tracker_policies :: "string \<rightharpoonup> Policy"
  interval_seconds :: int
  dry_run :: bool
  log_level :: string

subsection \<open>The configuration document\<close>

text \<open>
  A mapping that is splatted into \<open>Policy(**kw)\<close>: each field of the dataclass is present
  (\<open>Some\<close>) or absent (\<open>None\<close>) in the mapping, and \<open>kw_unknown\<close> lists the keys of the
  mapping that are not fields of \<open>Policy\<close>. Values have the types the dataclass
  annotates.
\<close>

record policy_kwargs =
  kw_ratio :: "real option"
  kw_seeding_minutes :: "int option"
  kw_idle_minutes :: "int option"
  kw_action :: "string option"
  kw_include_tags :: "string list option"
  kw_exclude_tags :: "string list option"
  kw_unknown :: "string list"

definition empty_kwargs :: policy_kwargs where
  "empty_kwargs = \<lparr>kw_ratio = None, kw_seeding_minutes = None, kw_idle_minutes = None,
     kw_action = None, kw_include_tags = None, kw_exclude_tags = None, kw_unknown = []\<rparr>"

record policy_section =
  sec_default :: "policy_kwargs option"
  sec_trackers :: "(string \<times> policy_kwargs) list option"

record runtime_section =
  rt_interval_seconds :: "int option"
  rt_dry_run :: "bool option"
  rt_log_level :: "string option"

record config_doc =
  doc_qbittorrent :: "(string \<times> pyobj) list option"
  doc_policy :: "policy_section option"
  doc_runtime :: "runtime_section option"

text \<open>\<open>d.get(key, default)\<close> on an optional entry.\<close>

definition get_or :: "'a option \<Rightarrow> 'a \<Rightarrow> 'a" where
  "get_or v d = (case v of Some x \<Rightarrow> x | None \<Rightarrow> d)"

text \<open>
  The dataclass constructor \<open>Policy(**kw)\<close>: an unexpected keyword and a missing
  required argument (\<open>ratio\<close>, \<open>seeding_minutes\<close>, \<open>idle_minutes\<close> have no default)
  both raise \<open>TypeError\<close>; \<open>action\<close> defaults to \<open>"pause"\<close>, the tag lists to \<open>[]\<close>.
\<close>

definition Policy_init :: "policy_kwargs \<Rightarrow> exn + Policy" where
  "Policy_init kw =
     (if kw_unknown kw \<noteq> [] then Inl TypeError
      else case kw_ratio kw of None \<Rightarrow> Inl TypeError | Some r \<Rightarrow>
           (case kw_seeding_minutes kw of None \<Rightarrow> Inl TypeError | Some s \<Rightarrow>
           (case kw_idle_minutes kw of None \<Rightarrow> Inl TypeError | Some i \<Rightarrow>
              Inr \<lparr>ratio = r, seeding_minutes = s, idle_minutes = i,
                   action = get_or (kw_action kw) ''pause'',
                   include_tags = get_or (kw_include_tags kw) [],
                   exclude_tags = get_or (kw_exclude_tags kw) []\<rparr>)))"

text \<open>The dict merge \<open>{**a, **b}\<close>: the entries of \<open>b\<close> win.\<close>

definition or_else :: "'a option \<Rightarrow> 'a option \<Rightarrow> 'a option" where
  "or_else b a = (case b of Some x \<Rightarrow> Some x | None \<Rightarrow> a)"

definition merge_kwargs :: "policy_kwargs \<Rightarrow> policy_kwargs \<Rightarrow> policy_kwargs" where
  "merge_kwargs a b =
     \<lparr>kw_ratio = or_else (kw_ratio b) (kw_ratio a),
      kw_seeding_minutes = or_else (kw_seeding_minutes b) (kw_seeding_minutes a),
      kw_idle_minutes = or_else (kw_idle_minutes b) (kw_idle_minutes a),
      kw_action = or_else (kw_action b) (kw_action a),
      kw_include_tags = or_else (kw_include_tags b) (kw_include_tags a),
      kw_exclude_tags = or_else (kw_exclude_tags b) (kw_exclude_tags a),
      kw_unknown = kw_unknown a @ kw_unknown b\<rparr>"

text \<open>The dict comprehension over \<open>policy.get("trackers", {}).items()\<close>.\<close>

fun build_trackers ::
  "policy_kwargs \<Rightarrow> (string \<times> policy_kwargs) list \<Rightarrow> exn + (string \<rightharpoonup> Policy)" where
  "build_trackers dflt [] = Inr Map.empty"
| "build_trackers dflt ((host, cfg) # rest) =
     (case Policy_init (merge_kwargs dflt cfg) of
        Inl e \<Rightarrow> Inl e
      | Inr p \<Rightarrow>
         (case build_trackers dflt rest of
            Inl e \<Rightarrow> Inl e
          | Inr m \<Rightarrow> Inr (if host \<in> dom m then m else m(host \<mapsto> p))))"

text \<open>\<open>policy.get("default", {})\<close> with \<open>policy = data.get("policy", {})\<close>.\<close>

definition policy_of :: "config_doc \<Rightarrow> policy_section" where
  "policy_of data = get_or (doc_policy data) \<lparr>sec_default = None, sec_trackers = None\<rparr>"

definition default_kwargs :: "config_doc \<Rightarrow> policy_kwargs" where
  "default_kwargs data = get_or (sec_default (policy_of data)) empty_kwargs"

definition runtime_of :: "config_doc \<Rightarrow> runtime_section" where
  "runtime_of data = get_or (doc_runtime data)
     \<lparr>rt_interval_seconds = None, rt_dry_run = None, rt_log_level = None\<rparr>"

definition from_dict :: "config_doc \<Rightarrow> exn + Config" where
  "from_dict data =
     (let qbt = get_or (doc_qbittorrent data) [];
          policy = policy_of data
      in case Policy_init (get_or (sec_default policy) empty_kwargs) of
           Inl e \<Rightarrow> Inl e
         | Inr dp \<Rightarrow>
            (case build_trackers (get_or (sec_default policy) empty_kwargs)
                    (get_or (sec_trackers policy) []) of
               Inl e \<Rightarrow> Inl e
             | Inr trackers \<Rightarrow>
                (let runtime = runtime_of data
                 in Inr \<lparr>qbittorrent = qbt,
                         default_policy = dp,
                         tracker_policies = trackers,
                         interval_seconds = get_or (rt_interval_seconds runtime) 60,
                         dry_run = get_or (rt_dry_run runtime) True,
                         log_level = get_or (rt_log_level runtime) ''INFO''\<rparr>)))"

definition load_config :: "config_doc \<Rightarrow> exn + Config" where
  "load_config raw = from_dict raw"

section \<open>Tracker host and tag filter\<close>

text \<open>
  \<open>urlparse(url).hostname\<close> is library code: the parameter \<open>hostname\<close> stands for it.
  A tracker entry is the value of \<open>tr.get("url")\<close>, which may be \<open>None\<close>.
\<close>

definition normalize_tracker :: "(string \<Rightarrow> string option) \<Rightarrow> string option \<Rightarrow> string option" where
  "normalize_tracker hostname url =
     (case url of None \<Rightarrow> None
      | Some u \<Rightarrow> if u = [] then None else hostname u)"

fun is_space :: "char \<Rightarrow> bool" where
  "is_space c = (c \<in> set [CHR 0x20, CHR 0x09, CHR 0x0A, CHR 0x0B, CHR 0x0C, CHR 0x0D,
                           CHR 0x1C, CHR 0x1D, CHR 0x1E, CHR 0x1F])"

definition strip :: "string \<Rightarrow> string" where
  "strip s = rev (dropWhile is_space (rev (dropWhile is_space s)))"

text \<open>\<open>s.split(",")\<close>: one more piece than there are commas.\<close>

fun split_comma :: "string \<Rightarrow> string list" where
  "split_comma [] = [[]]"
| "split_comma (c # cs) =
     (if c = CHR '','' then [] # split_comma cs
      else (case split_comma cs of
              [] \<Rightarrow> [[c]]
            | w # ws \<Rightarrow> (c # w) # ws))"

text \<open>\<open>set(tag.strip() for tag in torrent_tags if tag)\<close>.\<close>

definition tag_set :: "string list \<Rightarrow> string set" where
  "tag_set torrent_tags = set (map strip (filter (\<lambda>tag. tag \<noteq> []) torrent_tags))"

definition match_tags :: "string list \<Rightarrow> Policy \<Rightarrow> bool" where
  "match_tags torrent_tags policy =
     (if include_tags policy \<noteq> [] \<and> tag_set torrent_tags \<inter> set (include_tags policy) = {}
      then False
      else if exclude_tags policy \<noteq> [] \<and> tag_set torrent_tags \<inter> set (exclude_tags policy) \<noteq> {}
      then False
      else True)"

section \<open>The external client\<close>

text \<open>
  A torrent as \<open>torrents_info\<close> reports it; the fields are those the code reads.
\<close>

record torrent =
  t_hash :: hash
  t_name :: string
  t_tags :: string
  t_ratio :: real
  t_seeding_time :: int
  t_uploaded :: int
  t_upspeed :: int

text \<open>
  The client is outside the program: its answers are parameters. A call that raises
  answers with the exception; \<open>torrents_pause\<close> and \<open>torrents_delete\<close> answer \<open>None\<close>
  when they succeed.
\<close>

record client =
  torrents_info :: "exn + torrent list"
  torrents_trackers :: "hash \<Rightarrow> exn + string option list"
  torrents_pause :: "hash \<Rightarrow> exn option"
  torrents_delete :: "bool \<Rightarrow> hash \<Rightarrow> exn option"

text \<open>The loop of \<open>get_tracker_host\<close>: the first tracker whose host is non-empty.\<close>

fun first_host :: "(string \<Rightarrow> string option) \<Rightarrow> string option list \<Rightarrow> string option" where
  "first_host hostname [] = None"
| "first_host hostname (tr # trs) =
     (case normalize_tracker hostname tr of
        Some host \<Rightarrow> if host \<noteq> [] then Some host else first_host hostname trs
      | None \<Rightarrow> first_host hostname trs)"

definition get_tracker_host ::
  "(string \<Rightarrow> string option) \<Rightarrow> client \<Rightarrow> hash \<Rightarrow> exn + string option" where
  "get_tracker_host hostname cl torrent_hash =
     (case torrents_trackers cl torrent_hash of
        Inl e \<Rightarrow> if is_APIError e then Inr None else Inl e
      | Inr trackers \<Rightarrow> Inr (first_host hostname trackers))"

section \<open>The sentinel\<close>

record idle_state =
  uploaded :: int
  last_up :: real

type_synonym state = "hash \<rightharpoonup> idle_state"

record Sentinel =
  self_cfg :: Config
  self_once :: bool
  self_dry_run :: bool
  self_state :: state

text \<open>
  \<open>Sentinel.__init__\<close>; the construction of the client is outside the model.
\<close>

definition Sentinel_init :: "Config \<Rightarrow> bool \<Rightarrow> bool \<Rightarrow> Sentinel" where
  "Sentinel_init c once dry_run_override =
     \<lparr>self_cfg = c, self_once = once,
      self_dry_run = (dry_run_override \<or> dry_run c),
      self_state = Map.empty\<rparr>"

text \<open>What the program does to the outside, in the order it does it.\<close>

datatype event =
    Call_pause hash
  | Call_delete bool hash
  | Log_info string
  | Log_error string
  | Sleep int

fun is_call :: "event \<Rightarrow> bool" where
  "is_call (Call_pause h) = True"
| "is_call (Call_delete d h) = True"
| "is_call (Log_info m) = False"
| "is_call (Log_error m) = False"
| "is_call (Sleep n) = False"

subsection \<open>String helpers\<close>

definition upper_letters :: string where
  "upper_letters = ''ABCDEFGHIJKLMNOPQRSTUVWXYZ''"

definition lower_letters :: string where
  "lower_letters = ''abcdefghijklmnopqrstuvwxyz''"

definition lower :: "string \<Rightarrow> string" where
  "lower s = map (\<lambda>c. get_or (map_of (zip upper_letters lower_letters) c) c) s"

definition upper :: "string \<Rightarrow> string" where
  "upper s = map (\<lambda>c. get_or (map_of (zip lower_letters upper_letters) c) c) s"

fun join :: "string \<Rightarrow> string list \<Rightarrow> string" where
  "join sep [] = []"
| "join sep [x] = x"
| "join sep (x # y # ys) = x @ sep @ join sep (y # ys)"

subsection \<open>Dispatch\<close>

text \<open>The f-string of \<open>_apply_action\<close>, from the lowered action.\<close>

definition audit_msg :: "torrent \<Rightarrow> string option \<Rightarrow> string \<Rightarrow> string list \<Rightarrow> string" where
  "audit_msg t tracker_host act reasons =
     upper act @ '' | '' @ t_hash t @ '' | '' @ t_name t @ '' | ''
       @ (case tracker_host of None \<Rightarrow> ''-'' | Some h \<Rightarrow> if h = [] then ''-'' else h)
       @ '' | '' @ join '','' reasons"

text \<open>
  \<open>_apply_action\<close> returns the events it caused and the exception it raised, if any. A
  client call that raises is an event (it was made), and the \<open>logging.info\<close> after it is
  not reached.
\<close>

definition after_call :: "event \<Rightarrow> exn option \<Rightarrow> string \<Rightarrow> event list \<times> exn option" where
  "after_call call res msg =
     (case res of Some e \<Rightarrow> ([call], Some e) | None \<Rightarrow> ([call, Log_info msg], None))"

definition apply_action ::
  "client \<Rightarrow> bool \<Rightarrow> torrent \<Rightarrow> string option \<Rightarrow> string \<Rightarrow> string list
     \<Rightarrow> event list \<times> exn option" where
  "apply_action cl dry t tracker_host act0 reasons =
     (let act = lower act0;
          msg = audit_msg t tracker_host act reasons
      in if dry then ([Log_info (''DRY-RUN: '' @ msg)], None)
         else if act = ''pause'' then
           after_call (Call_pause (t_hash t)) (torrents_pause cl (t_hash t)) msg
         else if act = ''remove'' then
           after_call (Call_delete False (t_hash t)) (torrents_delete cl False (t_hash t)) msg
         else if act = ''remove_data'' then
           after_call (Call_delete True (t_hash t)) (torrents_delete cl True (t_hash t)) msg
         else ([Log_info msg], None))"

subsection \<open>One cycle\<close>

text \<open>\<open>self.cfg.tracker_policies.get(tracker_host, self.cfg.default_policy)\<close>.\<close>

definition resolve_policy :: "Config \<Rightarrow> string option \<Rightarrow> Policy" where
  "resolve_policy c tracker_host =
     (case tracker_host of
        None \<Rightarrow> default_policy c
      | Some h \<Rightarrow> get_or (tracker_policies c h) (default_policy c))"

text \<open>\<open>t.tags.split(",") if t.tags else []\<close>.\<close>

definition torrent_tags :: "torrent \<Rightarrow> string list" where
  "torrent_tags t = (if t_tags t \<noteq> [] then split_comma (t_tags t) else [])"

text \<open>
  Lines 128 to 139 of the loop body: the reasons, and the entry of the torrent's hash
  after \<open>setdefault\<close> and the update. \<open>entry\<close> is what the state holds for the hash
  before (\<open>None\<close> on the first observation). Truthiness of a number is \<open>\<noteq> 0\<close>.
\<close>

definition ratio_seeding_reasons :: "Policy \<Rightarrow> torrent \<Rightarrow> string list" where
  "ratio_seeding_reasons policy t =
     (if ratio policy \<noteq> 0 \<and> t_ratio t \<ge> ratio policy then [''ratio''] else [])
     @ (if seeding_minutes policy \<noteq> 0 \<and> t_seeding_time t div 60 \<ge> seeding_minutes policy
        then [''seeding_time''] else [])"

definition evaluate ::
  "Policy \<Rightarrow> torrent \<Rightarrow> real \<Rightarrow> idle_state option \<Rightarrow> idle_state \<times> string list" where
  "evaluate policy t now entry =
     (let reasons = ratio_seeding_reasons policy t;
          st = get_or entry \<lparr>uploaded = t_uploaded t, last_up = now\<rparr>
      in if t_uploaded t > uploaded st
         then (\<lparr>uploaded = t_uploaded t, last_up = now\<rparr>, reasons)
         else if idle_minutes policy \<noteq> 0 \<and> t_upspeed t = 0
                 \<and> (now - last_up st) / 60 \<ge> real_of_int (idle_minutes policy)
         then (st, reasons @ [''idle''])
         else (st, reasons))"

text \<open>
  The body of the \<open>for\<close> loop of \<open>_cycle\<close> for one torrent: the new state, the events,
  and the exception that leaves the loop, if any.
\<close>

definition cycle_body ::
  "(string \<Rightarrow> string option) \<Rightarrow> client \<Rightarrow> Config \<Rightarrow> bool \<Rightarrow> real \<Rightarrow> state \<Rightarrow> torrent
     \<Rightarrow> state \<times> event list \<times> exn option" where
  "cycle_body hostname cl c dry now st t =
     (case get_tracker_host hostname cl (t_hash t) of
        Inl e \<Rightarrow> (st, [], Some e)
      | Inr tracker_host \<Rightarrow>
         (let policy = resolve_policy c tracker_host
          in if \<not> match_tags (torrent_tags t) policy then (st, [], None)
             else (case evaluate policy t now (st (t_hash t)) of
                     (entry, reasons) \<Rightarrow>
                       (let st' = st(t_hash t \<mapsto> entry)
                        in if reasons \<noteq> []
                           then (case apply_action cl dry t tracker_host (action policy) reasons of
                                   (evs, r) \<Rightarrow> (st', evs, r))
                           else (st', [], None)))))"

fun cycle_loop ::
  "(string \<Rightarrow> string option) \<Rightarrow> client \<Rightarrow> Config \<Rightarrow> bool \<Rightarrow> real \<Rightarrow> state \<Rightarrow> torrent list
     \<Rightarrow> state \<times> event list \<times> exn option" where
  "cycle_loop hostname cl c dry now st [] = (st, [], None)"
| "cycle_loop hostname cl c dry now st (t # ts) =
     (case cycle_body hostname cl c dry now st t of
        (st', evs, Some e) \<Rightarrow> (st', evs, Some e)
      | (st', evs, None) \<Rightarrow>
         (case cycle_loop hostname cl c dry now st' ts of
            (st'', evs', r) \<Rightarrow> (st'', evs @ evs', r)))"

text \<open>
  What one cycle meets: the client's answers during the cycle and the reading of
  \<open>time.time()\<close>.
\<close>

record cycle_env =
  env_client :: client
  env_now :: real

definition cycle ::
  "(string \<Rightarrow> string option) \<Rightarrow> Sentinel \<Rightarrow> cycle_env \<Rightarrow> Sentinel \<times> event list \<times> exn option" where
  "cycle hostname self env =
     (case torrents_info (env_client env) of
        Inl e \<Rightarrow> (self, [], Some e)
      | Inr torrents \<Rightarrow>
         (case cycle_loop hostname (env_client env) (self_cfg self) (self_dry_run self)
                 (env_now env) (self_state self) torrents of
            (st', evs, r) \<Rightarrow> (self\<lparr>self_state := st'\<rparr>, evs, r)))"

subsection \<open>The run loop\<close>

text \<open>
  \<open>run\<close> loops until a cycle raises or \<open>once\<close> is set, so it may not return. The list
  of environments is the fuel: one per cycle. \<open>Running\<close> says that the loop has
  slept after the last environment and is still going.
\<close>

datatype outcome = Returned | Raised exn | Running

fun run ::
  "(string \<Rightarrow> string option) \<Rightarrow> Sentinel \<Rightarrow> cycle_env list \<Rightarrow> Sentinel \<times> event list \<times> outcome" where
  "run hostname self [] = (self, [], Running)"
| "run hostname self (env # envs) =
     (case cycle hostname self env of
        (self', evs, Some e) \<Rightarrow>
          (if e = LoginFailed then (self', evs @ [Log_error ''Login failed''], Returned)
           else if e = APIConnectionError
           then (self', evs @ [Log_error ''Connection error''], Returned)
           else (self', evs, Raised e))
      | (self', evs, None) \<Rightarrow>
          (if self_once self' then (self', evs, Returned)
           else (case run hostname self' envs of
                   (self'', evs', r) \<Rightarrow>
                     (self'', evs @ [Sleep (interval_seconds (self_cfg self'))] @ evs', r))))"

subsection \<open>The entry point\<close>

text \<open>
  \<open>main\<close>: the arguments of the command line, with the document that \<open>yaml.safe_load\<close>
  reads at \<open>--config\<close> in place of the path. An exception of \<open>load_config\<close> leaves \<open>main\<close>
  before a sentinel exists; the setup of logging is outside the model.
\<close>

record args =
  args_config :: config_doc
  args_once :: bool
  args_dry_run :: bool

definition main ::
  "(string \<Rightarrow> string option) \<Rightarrow> args \<Rightarrow> cycle_env list
     \<Rightarrow> exn + (Sentinel \<times> event list \<times> outcome)" where
  "main hostname a envs =
     (case load_config (args_config a) of
        Inl e \<Rightarrow> Inl e
      | Inr c \<Rightarrow> Inr (run hostname (Sentinel_init c (args_once a) (args_dry_run a)) envs))"

section \<open>Predicates of the statements\<close>

text \<open>The torrent \<open>t\<close> is rejected by the tag filter under the policy of its tracker.\<close>

definition tag_rejected :: "(string \<Rightarrow> string option) \<Rightarrow> client \<Rightarrow> Config \<Rightarrow> torrent \<Rightarrow> bool" where
  "tag_rejected hostname cl c t =
     (case get_tracker_host hostname cl (t_hash t) of
        Inl e \<Rightarrow> False
      | Inr host \<Rightarrow> \<not> match_tags (torrent_tags t) (resolve_policy c host))"

text \<open>
  Every stored timestamp is at most \<open>n\<close>; and the order on states in which each entry
  stays and its uploaded bytes do not decrease, nor its timestamp when \<open>tm\<close> is set.
\<close>

definition bounded :: "real \<Rightarrow> state \<Rightarrow> bool" where
  "bounded n st = (\<forall>h e. st h = Some e \<longrightarrow> last_up e \<le> n)"

definition state_le :: "bool \<Rightarrow> state \<Rightarrow> state \<Rightarrow> bool" where
  "state_le tm st st' =
     (\<forall>h e. st h = Some e \<longrightarrow>
        (\<exists>e'. st' h = Some e' \<and> uploaded e \<le> uploaded e'
              \<and> (tm \<longrightarrow> last_up e \<le> last_up e')))"

text \<open>
  A mapping has the three thresholds and no key that \<open>Policy\<close> does not know; a
  document is complete when its default policy section is, and each tracker section
  merged over it. Neither says anything of the action.
\<close>

definition kwargs_complete :: "policy_kwargs \<Rightarrow> bool" where
  "kwargs_complete kw =
     (kw_unknown kw = [] \<and> kw_ratio kw \<noteq> None \<and> kw_seeding_minutes kw \<noteq> None
      \<and> kw_idle_minutes kw \<noteq> None)"

definition tracker_docs :: "config_doc \<Rightarrow> (string \<times> policy_kwargs) list" where
  "tracker_docs data = get_or (sec_trackers (policy_of data)) []"

definition doc_complete :: "config_doc \<Rightarrow> bool" where
  "doc_complete data =
     (kwargs_complete (default_kwargs data)
      \<and> list_all (\<lambda>hc. kwargs_complete (merge_kwargs (default_kwargs data) (snd hc)))
           (tracker_docs data))"

text \<open>
  The client call that the action \<open>act\<close> makes for the hash \<open>h\<close> is \<open>call\<close>, and the
  client answers it with the exception \<open>e\<close>.
\<close>

definition failing_call :: "client \<Rightarrow> string \<Rightarrow> hash \<Rightarrow> exn \<Rightarrow> event \<Rightarrow> bool" where
  "failing_call cl act h e call =
     ((lower act = ''pause'' \<and> torrents_pause cl h = Some e \<and> call = Call_pause h)
      \<or> (lower act = ''remove'' \<and> torrents_delete cl False h = Some e
           \<and> call = Call_delete False h)
      \<or> (lower act = ''remove_data'' \<and> torrents_delete cl True h = Some e
           \<and> call = Call_delete True h))"

section \<open>Concrete inputs\<close>

text \<open>A default policy section that gives the two minute thresholds and no \<open>ratio\<close>.\<close>

definition doc_no_ratio :: config_doc where
  "doc_no_ratio =
     \<lparr>doc_qbittorrent = None,
      doc_policy = Some \<lparr>sec_default =
          Some (empty_kwargs\<lparr>kw_seeding_minutes := Some 30, kw_idle_minutes := Some 10\<rparr>),
        sec_trackers = None\<rparr>,
      doc_runtime = None\<rparr>"

text \<open>A document that gives the three thresholds and nothing else.\<close>

definition doc_thresholds_only :: config_doc where
  "doc_thresholds_only =
     \<lparr>doc_qbittorrent = None,
      doc_policy = Some \<lparr>sec_default =
          Some (empty_kwargs\<lparr>kw_ratio := Some 2, kw_seeding_minutes := Some 30,
                  kw_idle_minutes := Some 10\<rparr>),
        sec_trackers = None\<rparr>,
      doc_runtime = None\<rparr>"

definition cfg_thresholds_only :: Config where
  "cfg_thresholds_only =
     \<lparr>qbittorrent = [],
      default_policy = \<lparr>ratio = 2, seeding_minutes = 30, idle_minutes = 10,
        action = ''pause'', include_tags = [], exclude_tags = []\<rparr>,
      tracker_policies = Map.empty, interval_seconds = 60, dry_run = True,
      log_level = ''INFO''\<rparr>"

definition policy_tv :: Policy where
  "policy_tv = \<lparr>ratio = 2, seeding_minutes = 0, idle_minutes = 0, action = ''pause'',
     include_tags = [''tv''], exclude_tags = []\<rparr>"

definition policy_negative :: Policy where
  "policy_negative = \<lparr>ratio = - 1, seeding_minutes = - 1, idle_minutes = - 1,
     action = ''pause'', include_tags = [], exclude_tags = []\<rparr>"

definition policy_disabled :: Policy where
  "policy_disabled = \<lparr>ratio = 0, seeding_minutes = 0, idle_minutes = 0,
     action = ''remove_data'', include_tags = [], exclude_tags = []\<rparr>"

definition policy_idle30 :: Policy where
  "policy_idle30 = \<lparr>ratio = 0, seeding_minutes = 0, idle_minutes = 30,
     action = ''pause'', include_tags = [], exclude_tags = []\<rparr>"

definition torrent_fresh :: torrent where
  "torrent_fresh = \<lparr>t_hash = ''h1'', t_name = ''n1'', t_tags = [], t_ratio = 1 / 2,
     t_seeding_time = 0, t_uploaded = 1000, t_upspeed = 0\<rparr>"

definition torrent_big :: torrent where
  "torrent_big = \<lparr>t_hash = ''h1'', t_name = ''n1'', t_tags = [], t_ratio = 100,
     t_seeding_time = 1000000, t_uploaded = 1000, t_upspeed = 0\<rparr>"

definition no_hostname :: "string \<Rightarrow> string option" where
  "no_hostname url = None"

definition client_ok :: "torrent list \<Rightarrow> client" where
  "client_ok ts = \<lparr>torrents_info = Inr ts, torrents_trackers = (\<lambda>h. Inr []),
     torrents_pause = (\<lambda>h. None), torrents_delete = (\<lambda>d h. None)\<rparr>"

definition cfg_of :: "Policy \<Rightarrow> Config" where
  "cfg_of p = \<lparr>qbittorrent = [], default_policy = p, tracker_policies = Map.empty,
     interval_seconds = 60, dry_run = False, log_level = ''INFO''\<rparr>"

definition torrent_movies :: torrent where
  "torrent_movies = \<lparr>t_hash = ''h2'', t_name = ''n2'', t_tags = ''movies'', t_ratio = 100,
     t_seeding_time = 1000000, t_uploaded = 5000, t_upspeed = 0\<rparr>"

definition env_ok :: "torrent list \<Rightarrow> real \<Rightarrow> cycle_env" where
  "env_ok ts now = \<lparr>env_client = client_ok ts, env_now = now\<rparr>"

definition torrent_tv :: torrent where
  "torrent_tv = \<lparr>t_hash = ''h3'', t_name = ''n3'', t_tags = ''hd, tv'', t_ratio = 3,
     t_seeding_time = 0, t_uploaded = 7000, t_upspeed = 10\<rparr>"

definition policy_ratio2 :: Policy where
  "policy_ratio2 = \<lparr>ratio = 2, seeding_minutes = 0, idle_minutes = 0, action = ''pause'',
     include_tags = [], exclude_tags = []\<rparr>"

text \<open>A client whose \<open>torrents_pause\<close> raises \<open>e\<close> for the hash \<open>"h1"\<close>.\<close>

definition client_pause_fails :: "exn \<Rightarrow> torrent list \<Rightarrow> client" where
  "client_pause_fails e ts = \<lparr>torrents_info = Inr ts, torrents_trackers = (\<lambda>h. Inr []),
     torrents_pause = (\<lambda>h. if h = ''h1'' then Some e else None),
     torrents_delete = (\<lambda>d h. None)\<rparr>"

text \<open>A document whose default policy has an action the dispatcher does not know.\<close>

definition doc_bogus :: config_doc where
  "doc_bogus =
     \<lparr>doc_qbittorrent = None,
      doc_policy = Some \<lparr>sec_default =
          Some (empty_kwargs\<lparr>kw_ratio := Some 2, kw_seeding_minutes := Some 0,
                  kw_idle_minutes := Some 0, kw_action := Some ''bogus''\<rparr>),
        sec_trackers = None\<rparr>,
      doc_runtime = Some \<lparr>rt_interval_seconds = None, rt_dry_run = Some False,
        rt_log_level = None\<rparr>\<rparr>"

definition cfg_bogus :: Config where
  "cfg_bogus = cfg_of (policy_ratio2\<lparr>action := ''bogus''\<rparr>)"

definition state_h1 :: state where
  "state_h1 = [''h1'' \<mapsto> \<lparr>uploaded = 1000, last_up = 0\<rparr>]"

definition env_pause_fails :: cycle_env where
  "env_pause_fails =
     \<lparr>env_client = client_pause_fails APIError [torrent_big, torrent_movies], env_now = 0\<rparr>"

definition sentinel_ratio2 :: Sentinel where
  "sentinel_ratio2 = Sentinel_init (cfg_of policy_ratio2) False False"

definition state_h2 :: state where
  "state_h2 = [''h2'' \<mapsto> \<lparr>uploaded = 1, last_up = 0\<rparr>]"

definition torrent_more :: torrent where
  "torrent_more = torrent_big\<lparr>t_uploaded := 2000\<rparr>"

definition sentinel_disabled :: Sentinel where
  "sentinel_disabled = Sentinel_init (cfg_of policy_disabled) False False"

text \<open>
  A document with a tracker section whose action the dispatcher does not know, and a
  client whose \<open>torrents_delete\<close> raises \<open>e\<close> for the hash \<open>"h1"\<close>.
\<close>

definition doc_bogus_tracker :: config_doc where
  "doc_bogus_tracker =
     \<lparr>doc_qbittorrent = None,
      doc_policy = Some \<lparr>sec_default =
          Some (empty_kwargs\<lparr>kw_ratio := Some 2, kw_seeding_minutes := Some 0,
                  kw_idle_minutes := Some 0\<rparr>),
        sec_trackers = Some [(''tracker.example.org'',
          empty_kwargs\<lparr>kw_action := Some ''Bogus''\<rparr>)]\<rparr>,
      doc_runtime = None\<rparr>"

definition client_delete_fails :: "exn \<Rightarrow> torrent list \<Rightarrow> client" where
  "client_delete_fails e ts = \<lparr>torrents_info = Inr ts, torrents_trackers = (\<lambda>h. Inr []),
     torrents_pause = (\<lambda>h. None),
     torrents_delete = (\<lambda>d h. if h = ''h1'' then Some e else None)\<rparr>"

section \<open>Loading the configuration\<close>

lemma Policy_init_missing:
  "kw_ratio kw = None \<or> kw_seeding_minutes kw = None \<or> kw_idle_minutes kw = None
     \<Longrightarrow> Policy_init kw = Inl TypeError"
  by (auto simp: Policy_init_def split: option.splits)

lemma Policy_init_action:
  "Policy_init kw = Inr p \<Longrightarrow> action p = get_or (kw_action kw) ''pause''"
  by (auto simp: Policy_init_def split: option.splits if_splits)

lemma from_dict_Inr:
  assumes "from_dict data = Inr c"
  shows "Policy_init (default_kwargs data) = Inr (default_policy c)"
    and "interval_seconds c = get_or (rt_interval_seconds (runtime_of data)) 60"
    and "dry_run c = get_or (rt_dry_run (runtime_of data)) True"
  using assms
  by (auto simp: from_dict_def default_kwargs_def Let_def split: sum.splits)

lemma from_dict_thresholds_only: "from_dict doc_thresholds_only = Inr cfg_thresholds_only"
  by (simp add: from_dict_def doc_thresholds_only_def cfg_thresholds_only_def policy_of_def
        runtime_of_def get_or_def empty_kwargs_def Policy_init_def)

text \<open>
  C1, as the claim states it, fails: a default policy section without \<open>ratio\<close> does not
  load, the dataclass constructor raises \<open>TypeError\<close>.
\<close>

theorem from_dict_missing_threshold_counterexample:
  "from_dict doc_no_ratio = Inl TypeError"
  by (simp add: from_dict_def doc_no_ratio_def policy_of_def get_or_def empty_kwargs_def
        Policy_init_def)

text \<open>
  C1, amended: \<open>ratio\<close>, \<open>seeding_minutes\<close> and \<open>idle_minutes\<close> have no default; when the
  default policy section omits one of them, loading the configuration raises
  \<open>TypeError\<close>. When the configuration loads, an omitted \<open>action\<close> is \<open>"pause"\<close>, an
  omitted \<open>dry_run\<close> is true and an omitted \<open>interval_seconds\<close> is 60.
\<close>

theorem from_dict_defaults:
  "(kw_ratio (default_kwargs data) = None \<or> kw_seeding_minutes (default_kwargs data) = None
      \<or> kw_idle_minutes (default_kwargs data) = None \<longrightarrow> from_dict data = Inl TypeError)
   \<and> (from_dict data = Inr c \<longrightarrow>
        (kw_action (default_kwargs data) = None \<longrightarrow> action (default_policy c) = ''pause'')
      \<and> (rt_dry_run (runtime_of data) = None \<longrightarrow> dry_run c = True)
      \<and> (rt_interval_seconds (runtime_of data) = None \<longrightarrow> interval_seconds c = 60))"
proof (intro conjI impI)
  assume "kw_ratio (default_kwargs data) = None \<or> kw_seeding_minutes (default_kwargs data) = None
      \<or> kw_idle_minutes (default_kwargs data) = None"
  then have "Policy_init (default_kwargs data) = Inl TypeError"
    by (rule Policy_init_missing)
  then show "from_dict data = Inl TypeError"
    by (simp add: from_dict_def default_kwargs_def)
next
  assume ok: "from_dict data = Inr c"
  note c = from_dict_Inr [OF ok]
  {
    assume "kw_action (default_kwargs data) = None"
    with Policy_init_action [OF c(1)] show "action (default_policy c) = ''pause''"
      by (simp add: get_or_def)
  next
    assume "rt_dry_run (runtime_of data) = None"
    with c show "dry_run c = True" by (simp add: get_or_def)
  next
    assume "rt_interval_seconds (runtime_of data) = None"
    with c show "interval_seconds c = 60" by (simp add: get_or_def)
  }
qed

theorem from_dict_defaults_witness:
  "kw_ratio (default_kwargs doc_no_ratio) = None
   \<and> from_dict doc_no_ratio = Inl TypeError
   \<and> from_dict doc_thresholds_only = Inr cfg_thresholds_only
   \<and> kw_action (default_kwargs doc_thresholds_only) = None
   \<and> rt_dry_run (runtime_of doc_thresholds_only) = None
   \<and> rt_interval_seconds (runtime_of doc_thresholds_only) = None
   \<and> action (default_policy cfg_thresholds_only) = ''pause''
   \<and> dry_run cfg_thresholds_only = True
   \<and> interval_seconds cfg_thresholds_only = 60"
proof -
  have a: "kw_ratio (default_kwargs doc_no_ratio) = None"
    by (simp add: default_kwargs_def doc_no_ratio_def policy_of_def get_or_def empty_kwargs_def)
  have b: "kw_action (default_kwargs doc_thresholds_only) = None"
    "rt_dry_run (runtime_of doc_thresholds_only) = None"
    "rt_interval_seconds (runtime_of doc_thresholds_only) = None"
    by (simp_all add: default_kwargs_def doc_thresholds_only_def policy_of_def runtime_of_def
          get_or_def empty_kwargs_def)
  from a from_dict_defaults [of doc_no_ratio] have "from_dict doc_no_ratio = Inl TypeError"
    by blast
  moreover from b from_dict_defaults [of doc_thresholds_only cfg_thresholds_only]
    from_dict_thresholds_only
  have "action (default_policy cfg_thresholds_only) = ''pause''
    \<and> dry_run cfg_thresholds_only = True \<and> interval_seconds cfg_thresholds_only = 60"
    by blast
  ultimately show ?thesis using a b from_dict_thresholds_only by blast
qed

section \<open>Tag filter\<close>

text \<open>
  C9: when \<open>include_tags\<close> is not empty and the torrent's tag set (the set \<open>match_tags\<close>
  builds from the tags) is empty, \<open>match_tags\<close> returns false.
\<close>

theorem match_tags_empty_tag_set:
  "include_tags policy \<noteq> [] \<Longrightarrow> tag_set tags = {} \<Longrightarrow> match_tags tags policy = False"
  by (simp add: match_tags_def)

theorem match_tags_empty_tag_set_witness:
  "include_tags policy_tv \<noteq> [] \<and> tag_set (torrent_tags torrent_fresh) = {}
   \<and> match_tags (torrent_tags torrent_fresh) policy_tv = False"
proof -
  have a: "include_tags policy_tv \<noteq> []" by (simp add: policy_tv_def)
  have b: "tag_set (torrent_tags torrent_fresh) = {}"
    by (simp add: tag_set_def torrent_tags_def torrent_fresh_def)
  from match_tags_empty_tag_set [OF a b] a b show ?thesis by simp
qed

section \<open>Rule evaluation\<close>

lemma set_ratio_seeding_reasons:
  "set (ratio_seeding_reasons p t) \<subseteq> {''ratio'', ''seeding_time''}"
  by (auto simp: ratio_seeding_reasons_def)

text \<open>
  C5: on the first observation of a hash (no entry in the state), with
  \<open>idle_minutes > 0\<close>, the reason \<open>"idle"\<close> is not produced, whatever the uploaded bytes,
  the upload speed and the time.
\<close>

theorem first_observation_not_idle:
  "st (t_hash t) = None \<Longrightarrow> 0 < idle_minutes policy
     \<Longrightarrow> ''idle'' \<notin> set (snd (evaluate policy t now (st (t_hash t))))"
  using set_ratio_seeding_reasons [of policy t]
  by (auto simp: evaluate_def Let_def get_or_def)

theorem first_observation_not_idle_witness:
  "Map.empty (t_hash torrent_fresh) = None \<and> 0 < idle_minutes policy_idle30
   \<and> ''idle'' \<notin> set (snd (evaluate policy_idle30 torrent_fresh 0 (Map.empty (t_hash torrent_fresh))))
   \<and> snd (evaluate policy_idle30 torrent_fresh 0 None) = []"
proof -
  have a: "0 < idle_minutes policy_idle30" by (simp add: policy_idle30_def)
  have b: "snd (evaluate policy_idle30 torrent_fresh 0 None) = []"
    by (simp add: evaluate_def ratio_seeding_reasons_def policy_idle30_def torrent_fresh_def
          get_or_def)
  from first_observation_not_idle [of Map.empty torrent_fresh policy_idle30 0, OF _ a] a b
  show ?thesis by simp
qed

text \<open>
  C6: the reasons are a subsequence of \<open>["ratio", "seeding_time", "idle"]\<close>, and no
  reason appears twice.
\<close>

theorem reasons_subseq:
  "subseq (snd (evaluate policy t now entry)) [''ratio'', ''seeding_time'', ''idle'']
   \<and> distinct (snd (evaluate policy t now entry))"
  by (simp add: evaluate_def ratio_seeding_reasons_def Let_def)

text \<open>
  C4, as the claim states it, fails for negative thresholds: a negative number is truthy,
  so the rule is on, and every non-negative metric reaches the threshold.
\<close>

theorem negative_threshold_counterexample:
  "snd (evaluate policy_negative torrent_fresh 0 None) = [''ratio'', ''seeding_time'', ''idle'']"
  by (simp add: evaluate_def ratio_seeding_reasons_def policy_negative_def torrent_fresh_def
        get_or_def)

text \<open>
  C4, amended: a threshold equal to 0 disables its rule: with \<open>ratio = 0\<close> the reason
  \<open>"ratio"\<close> is never produced, with \<open>seeding_minutes = 0\<close> never \<open>"seeding_time"\<close>, with
  \<open>idle_minutes = 0\<close> never \<open>"idle"\<close>; a policy with the three thresholds 0 produces no
  reason and the loop body dispatches nothing, for any torrent.
\<close>

theorem zero_threshold_disabled:
  "(ratio policy = 0 \<longrightarrow> ''ratio'' \<notin> set (snd (evaluate policy t now entry)))
   \<and> (seeding_minutes policy = 0 \<longrightarrow> ''seeding_time'' \<notin> set (snd (evaluate policy t now entry)))
   \<and> (idle_minutes policy = 0 \<longrightarrow> ''idle'' \<notin> set (snd (evaluate policy t now entry)))
   \<and> (ratio policy = 0 \<and> seeding_minutes policy = 0 \<and> idle_minutes policy = 0 \<longrightarrow>
        snd (evaluate policy t now entry) = []
        \<and> (get_tracker_host hostname cl (t_hash t) = Inr host \<and> resolve_policy c host = policy
             \<longrightarrow> fst (snd (cycle_body hostname cl c dry now st t)) = []))"
  by (auto simp: evaluate_def ratio_seeding_reasons_def Let_def cycle_body_def split: prod.splits)

theorem zero_threshold_disabled_witness:
  "ratio policy_disabled = 0 \<and> seeding_minutes policy_disabled = 0
   \<and> idle_minutes policy_disabled = 0
   \<and> get_tracker_host no_hostname (client_ok [torrent_big]) (t_hash torrent_big) = Inr None
   \<and> resolve_policy (cfg_of policy_disabled) None = policy_disabled
   \<and> ''ratio'' \<notin> set (snd (evaluate policy_disabled torrent_big 6000
         (Some \<lparr>uploaded = 1000, last_up = 0\<rparr>)))
   \<and> snd (evaluate policy_disabled torrent_big 6000 (Some \<lparr>uploaded = 1000, last_up = 0\<rparr>)) = []
   \<and> fst (snd (cycle_body no_hostname (client_ok [torrent_big]) (cfg_of policy_disabled) False
         6000 Map.empty torrent_big)) = []"
proof -
  have z: "ratio policy_disabled = 0" "seeding_minutes policy_disabled = 0"
    "idle_minutes policy_disabled = 0"
    by (simp_all add: policy_disabled_def)
  have h: "get_tracker_host no_hostname (client_ok [torrent_big]) (t_hash torrent_big) = Inr None"
    by (simp add: get_tracker_host_def client_ok_def)
  have r: "resolve_policy (cfg_of policy_disabled) None = policy_disabled"
    by (simp add: resolve_policy_def cfg_of_def)
  from z h r
    zero_threshold_disabled [of policy_disabled torrent_big 6000
      "Some \<lparr>uploaded = 1000, last_up = 0\<rparr>" no_hostname "client_ok [torrent_big]" None
      "cfg_of policy_disabled" False Map.empty]
  show ?thesis by simp
qed

lemmas sentinel_defs =
  cycle_def cycle_body_def get_tracker_host_def resolve_policy_def
  match_tags_def torrent_tags_def tag_set_def strip_def evaluate_def ratio_seeding_reasons_def
  apply_action_def after_call_def audit_msg_def lower_def upper_def upper_letters_def
  lower_letters_def get_or_def Sentinel_init_def Let_def

section \<open>Dispatch\<close>

lemma apply_action_dry:
  "apply_action cl True t host act rs =
     ([Log_info (''DRY-RUN: '' @ audit_msg t host (lower act) rs)], None)"
  by (simp add: apply_action_def)

lemma apply_action_calls:
  "apply_action cl dry t host act rs = (evs, r) \<Longrightarrow> ev \<in> set evs \<Longrightarrow> is_call ev
     \<Longrightarrow> \<not> dry \<and> (ev = Call_pause (t_hash t) \<or> ev = Call_delete False (t_hash t)
                   \<or> ev = Call_delete True (t_hash t))"
  by (auto simp: apply_action_def after_call_def Let_def split: if_splits option.splits)

lemma apply_action_raises:
  "apply_action cl dry t host act rs = (evs, Some e)
     \<Longrightarrow> \<not> dry \<and> (evs = [Call_pause (t_hash t)] \<or> evs = [Call_delete False (t_hash t)]
                   \<or> evs = [Call_delete True (t_hash t)])"
  by (auto simp: apply_action_def after_call_def Let_def split: if_splits option.splits)

section \<open>The loop of a cycle\<close>

lemma cycle_body_cases:
  assumes "cycle_body hostname cl c dry now st t = (st', evs, r)"
  shows "(st' = st \<and> evs = [])
       \<or> (\<exists>host entry rs. get_tracker_host hostname cl (t_hash t) = Inr host
            \<and> match_tags (torrent_tags t) (resolve_policy c host)
            \<and> evaluate (resolve_policy c host) t now (st (t_hash t)) = (entry, rs)
            \<and> st' = st(t_hash t \<mapsto> entry)
            \<and> (if rs = [] then evs = [] \<and> r = None
                else apply_action cl dry t host (action (resolve_policy c host)) rs = (evs, r)))"
  using assms
  by (auto simp: cycle_body_def Let_def split: sum.splits if_splits prod.splits)

lemma cycle_body_rejected:
  "get_tracker_host hostname cl (t_hash t) = Inr host
     \<Longrightarrow> \<not> match_tags (torrent_tags t) (resolve_policy c host)
     \<Longrightarrow> cycle_body hostname cl c dry now st t = (st, [], None)"
  by (simp add: cycle_body_def)

lemma cycle_body_other_hash:
  "cycle_body hostname cl c dry now st t = (st', evs, r) \<Longrightarrow> h \<noteq> t_hash t \<Longrightarrow> st' h = st h"
  by (drule cycle_body_cases) auto

lemma cycle_body_calls:
  assumes "cycle_body hostname cl c dry now st t = (st', evs, r)" "ev \<in> set evs" "is_call ev"
  shows "\<not> dry \<and> (ev = Call_pause (t_hash t) \<or> ev = Call_delete False (t_hash t)
                   \<or> ev = Call_delete True (t_hash t))"
proof -
  from cycle_body_cases [OF assms(1)] assms(2)
  obtain host rs where "apply_action cl dry t host (action (resolve_policy c host)) rs = (evs, r)"
    by (auto split: if_splits)
  from apply_action_calls [OF this assms(2,3)] show ?thesis .
qed

lemma cycle_loop_append:
  "cycle_loop hostname cl c dry now st (pre @ post) =
     (case cycle_loop hostname cl c dry now st pre of
        (st1, evs1, Some e) \<Rightarrow> (st1, evs1, Some e)
      | (st1, evs1, None) \<Rightarrow>
          (case cycle_loop hostname cl c dry now st1 post of
             (st2, evs2, r) \<Rightarrow> (st2, evs1 @ evs2, r)))"
  by (induction pre arbitrary: st) (auto split: prod.splits option.splits)

lemma cycle_loop_abort:
  assumes "cycle_loop hostname cl c dry now st pre = (st1, evs1, None)"
    and "cycle_body hostname cl c dry now st1 t = (st2, evs2, Some e)"
  shows "cycle_loop hostname cl c dry now st (pre @ t # post) = (st2, evs1 @ evs2, Some e)"
  using assms by (simp add: cycle_loop_append)

lemma cycle_loop_calls:
  "cycle_loop hostname cl c dry now st ts = (st', evs, r) \<Longrightarrow> ev \<in> set evs \<Longrightarrow> is_call ev
     \<Longrightarrow> \<not> dry \<and> (\<exists>t\<in>set ts. tag_rejected hostname cl c t = False
            \<and> (ev = Call_pause (t_hash t) \<or> ev = Call_delete False (t_hash t)
                   \<or> ev = Call_delete True (t_hash t)))"
proof (induction ts arbitrary: st st' evs r)
  case Nil
  then show ?case by simp
next
  case (Cons t ts)
  obtain st1 evs1 r1 where b: "cycle_body hostname cl c dry now st t = (st1, evs1, r1)"
    by (cases "cycle_body hostname cl c dry now st t") auto
  have here: "ev \<in> set evs1 \<Longrightarrow> ?case"
  proof -
    assume in1: "ev \<in> set evs1"
    from cycle_body_calls [OF b in1 Cons.prems(3)]
    have c1: "\<not> dry \<and> (ev = Call_pause (t_hash t) \<or> ev = Call_delete False (t_hash t)
                   \<or> ev = Call_delete True (t_hash t))" .
    from cycle_body_cases [OF b] in1
    have "tag_rejected hostname cl c t = False"
      by (auto simp: tag_rejected_def)
    with c1 show ?case by auto
  qed
  show ?case
  proof (cases r1)
    case (Some e)
    with b Cons.prems(1) have "evs = evs1" by simp
    with Cons.prems(2) here show ?thesis by simp
  next
    case None
    obtain st2 evs2 r2 where l: "cycle_loop hostname cl c dry now st1 ts = (st2, evs2, r2)"
      by (cases "cycle_loop hostname cl c dry now st1 ts") auto
    with b None Cons.prems(1) have "evs = evs1 @ evs2" by simp
    with Cons.prems(2) have "ev \<in> set evs1 \<or> ev \<in> set evs2" by simp
    then show ?thesis
    proof
      assume "ev \<in> set evs1" then show ?thesis by (rule here)
    next
      assume "ev \<in> set evs2"
      from Cons.IH [OF l this Cons.prems(3)] show ?thesis by auto
    qed
  qed
qed

lemma cycle_loop_frame:
  "cycle_loop hostname cl c dry now st ts = (st', evs, r)
     \<Longrightarrow> \<forall>t\<in>set ts. t_hash t = h \<longrightarrow> tag_rejected hostname cl c t
     \<Longrightarrow> st' h = st h"
proof (induction ts arbitrary: st st' evs r)
  case Nil
  then show ?case by simp
next
  case (Cons t ts)
  obtain st1 evs1 r1 where b: "cycle_body hostname cl c dry now st t = (st1, evs1, r1)"
    by (cases "cycle_body hostname cl c dry now st t") auto
  have s1: "st1 h = st h"
  proof (cases "t_hash t = h")
    case True
    with Cons.prems(2) have "tag_rejected hostname cl c t" by simp
    then have "cycle_body hostname cl c dry now st t = (st, [], None)"
      by (auto simp: tag_rejected_def cycle_body_rejected split: sum.splits)
    with b show ?thesis by simp
  next
    case False
    with cycle_body_other_hash [OF b, of h] show ?thesis by simp
  qed
  show ?case
  proof (cases r1)
    case (Some e)
    with b Cons.prems(1) s1 show ?thesis by simp
  next
    case None
    obtain st2 evs2 r2 where l: "cycle_loop hostname cl c dry now st1 ts = (st2, evs2, r2)"
      by (cases "cycle_loop hostname cl c dry now st1 ts") auto
    with b None Cons.prems(1) have "st' = st2" by simp
    moreover from Cons.IH [OF l] Cons.prems(2) have "st2 h = st1 h" by simp
    ultimately show ?thesis using s1 by simp
  qed
qed

section \<open>The run loop\<close>

lemma cycle_self:
  "cycle hostname self env = (self', evs, r) \<Longrightarrow> \<exists>st'. self' = self\<lparr>self_state := st'\<rparr>"
  by (cases self) (auto simp: cycle_def split: sum.splits prod.splits)

lemma cycle_calls:
  "cycle hostname self env = (self', evs, r) \<Longrightarrow> ev \<in> set evs \<Longrightarrow> is_call ev
     \<Longrightarrow> \<not> self_dry_run self"
  by (auto simp: cycle_def split: sum.splits prod.splits dest: cycle_loop_calls)

lemma run_calls:
  "run hostname self envs = (self', evs, r) \<Longrightarrow> ev \<in> set evs \<Longrightarrow> is_call ev
     \<Longrightarrow> \<not> self_dry_run self"
proof (induction envs arbitrary: self self' evs r)
  case Nil
  then show ?case by simp
next
  case (Cons env envs)
  obtain s1 evs1 r1 where c: "cycle hostname self env = (s1, evs1, r1)"
    by (cases "cycle hostname self env") auto
  from cycle_self [OF c] have d: "self_dry_run s1 = self_dry_run self" by auto
  show ?case
  proof (cases "ev \<in> set evs1")
    case True
    from cycle_calls [OF c True Cons.prems(3)] show ?thesis .
  next
    case False
    obtain s2 evs2 r2 where r: "run hostname s1 envs = (s2, evs2, r2)"
      by (cases "run hostname s1 envs") auto
    from Cons.prems c r False have "ev \<in> set evs2"
      by (auto split: option.splits if_splits)
    from Cons.IH [OF r this Cons.prems(3)] d show ?thesis by simp
  qed
qed

text \<open>
  C7: in dry-run mode (set by the configuration or by the \<open>--dry-run\<close> override),
  \<open>_apply_action\<close> only logs the audit line with the prefix \<open>DRY-RUN: \<close>, and no run of
  the sentinel calls the client's pause or delete.
\<close>

theorem dry_run_no_calls:
  assumes "dry_run_override \<or> dry_run c"
  shows "apply_action cl (self_dry_run (Sentinel_init c once dry_run_override)) t host act rs
           = ([Log_info (''DRY-RUN: '' @ audit_msg t host (lower act) rs)], None)
       \<and> (\<forall>ev\<in>set (fst (snd (run hostname (Sentinel_init c once dry_run_override) envs))).
            \<not> is_call ev)"
proof -
  from assms have d: "self_dry_run (Sentinel_init c once dry_run_override)"
    by (simp add: Sentinel_init_def)
  then have "apply_action cl (self_dry_run (Sentinel_init c once dry_run_override)) t host act rs
           = ([Log_info (''DRY-RUN: '' @ audit_msg t host (lower act) rs)], None)"
    by (simp add: apply_action_dry)
  moreover have "\<not> is_call ev"
    if "ev \<in> set (fst (snd (run hostname (Sentinel_init c once dry_run_override) envs)))" for ev
    using run_calls [of hostname "Sentinel_init c once dry_run_override" envs _ _ _ ev] that d
    by (cases "run hostname (Sentinel_init c once dry_run_override) envs") auto
  ultimately show ?thesis by blast
qed

lemma run_dry_example:
  "fst (snd (run no_hostname (Sentinel_init cfg_thresholds_only True False)
       [env_ok [torrent_big] 0]))
     = [Log_info ''DRY-RUN: PAUSE | h1 | n1 | - | ratio,seeding_time'']"
  by (simp add: sentinel_defs cfg_thresholds_only_def env_ok_def client_ok_def torrent_big_def)

theorem dry_run_no_calls_witness:
  "dry_run cfg_thresholds_only
   \<and> apply_action (client_ok [torrent_big])
        (self_dry_run (Sentinel_init cfg_thresholds_only True False)) torrent_big None
        ''pause'' [''ratio'']
       = ([Log_info ''DRY-RUN: PAUSE | h1 | n1 | - | ratio''], None)
   \<and> fst (snd (run no_hostname (Sentinel_init cfg_thresholds_only True False)
       [env_ok [torrent_big] 0]))
       = [Log_info ''DRY-RUN: PAUSE | h1 | n1 | - | ratio,seeding_time'']
   \<and> Call_pause ''h1'' \<notin> set (fst (snd (run no_hostname
       (Sentinel_init cfg_thresholds_only True False) [env_ok [torrent_big] 0])))"
proof -
  have a: "False \<or> dry_run cfg_thresholds_only" by (simp add: cfg_thresholds_only_def)
  have m: "audit_msg torrent_big None (lower ''pause'') [''ratio''] = ''PAUSE | h1 | n1 | - | ratio''"
    by (simp add: sentinel_defs torrent_big_def)
  from dry_run_no_calls [OF a, of "client_ok [torrent_big]" True torrent_big None "''pause''"
      "[''ratio'']" no_hostname "[env_ok [torrent_big] 0]"] a m run_dry_example
  show ?thesis by auto
qed

section \<open>Unknown actions\<close>

lemma from_dict_bogus: "from_dict doc_bogus = Inr cfg_bogus"
  by (simp add: from_dict_def doc_bogus_def cfg_bogus_def cfg_of_def policy_ratio2_def
        policy_of_def runtime_of_def get_or_def empty_kwargs_def Policy_init_def)

text \<open>
  C2, as the claim states it, fails: a configuration whose action is \<open>"bogus"\<close> loads, the
  run starts, and the dispatcher meets the unknown action: it calls nothing and logs the
  audit line.
\<close>

theorem unknown_action_counterexample:
  "from_dict doc_bogus = Inr cfg_bogus
   \<and> action (default_policy cfg_bogus) = ''bogus''
   \<and> snd (run no_hostname (Sentinel_init cfg_bogus True False) [env_ok [torrent_big] 0])
       = ([Log_info ''BOGUS | h1 | n1 | - | ratio''], Returned)"
  by (simp add: from_dict_bogus) (simp add: sentinel_defs cfg_bogus_def cfg_of_def policy_ratio2_def env_ok_def client_ok_def
        torrent_big_def)

lemma Policy_init_complete: "(\<exists>p. Policy_init kw = Inr p) = kwargs_complete kw"
  by (auto simp: Policy_init_def kwargs_complete_def split: option.splits)

lemma build_trackers_complete:
  "(\<exists>m. build_trackers dflt l = Inr m)
     = list_all (\<lambda>hc. kwargs_complete (merge_kwargs dflt (snd hc))) l"
proof (induction l)
  case Nil
  show ?case by simp
next
  case (Cons hc l)
  obtain host cfg where hc: "hc = (host, cfg)" by (cases hc)
  show ?case
  proof (cases "Policy_init (merge_kwargs dflt cfg)")
    case (Inl e)
    with Policy_init_complete [of "merge_kwargs dflt cfg"] hc show ?thesis by simp
  next
    case (Inr p)
    with Policy_init_complete [of "merge_kwargs dflt cfg"]
    have "kwargs_complete (merge_kwargs dflt cfg)" by auto
    with Inr hc Cons.IH show ?thesis
      by (cases "build_trackers dflt l") auto
  qed
qed

lemma build_trackers_entry:
  "build_trackers dflt l = Inr m \<Longrightarrow> m h = Some p
     \<Longrightarrow> \<exists>cfg. (h, cfg) \<in> set l \<and> Policy_init (merge_kwargs dflt cfg) = Inr p"
proof (induction l arbitrary: m)
  case Nil
  then show ?case by auto
next
  case (Cons hc l)
  obtain host cfg where hc: "hc = (host, cfg)" by (cases hc)
  from Cons.prems(1) hc obtain p0 m0 where p0: "Policy_init (merge_kwargs dflt cfg) = Inr p0"
    and m0: "build_trackers dflt l = Inr m0"
    and m: "m = (if host \<in> dom m0 then m0 else m0(host \<mapsto> p0))"
    by (auto split: sum.splits)
  show ?case
  proof (cases "m0 h = Some p")
    case True
    from Cons.IH [OF m0 True] show ?thesis by auto
  next
    case False
    with m Cons.prems(2) have "h = host \<and> p = p0"
      by (auto split: if_splits)
    with p0 hc show ?thesis by auto
  qed
qed

lemma from_dict_complete: "(\<exists>c. from_dict data = Inr c) = doc_complete data"
proof -
  have "(\<exists>c. from_dict data = Inr c)
      = ((\<exists>p. Policy_init (default_kwargs data) = Inr p)
         \<and> (\<exists>m. build_trackers (default_kwargs data) (tracker_docs data) = Inr m))"
    by (auto simp: from_dict_def default_kwargs_def tracker_docs_def Let_def split: sum.splits)
  then show ?thesis
    by (simp add: Policy_init_complete build_trackers_complete doc_complete_def)
qed

lemma from_dict_trackers:
  "from_dict data = Inr c
     \<Longrightarrow> build_trackers (default_kwargs data) (tracker_docs data) = Inr (tracker_policies c)"
  by (auto simp: from_dict_def default_kwargs_def tracker_docs_def Let_def split: sum.splits)

lemma cycle_body_unknown_action:
  assumes "lower (action (resolve_policy c host)) \<noteq> ''pause''"
    "lower (action (resolve_policy c host)) \<noteq> ''remove''"
    "lower (action (resolve_policy c host)) \<noteq> ''remove_data''"
    and "get_tracker_host hostname cl (t_hash t) = Inr host"
    and "match_tags (torrent_tags t) (resolve_policy c host)"
    and "evaluate (resolve_policy c host) t now (st (t_hash t)) = (entry, rs)" "rs \<noteq> []"
  shows "cycle_body hostname cl c False now st t
       = (st(t_hash t \<mapsto> entry),
          [Log_info (audit_msg t host (lower (action (resolve_policy c host))) rs)], None)"
  using assms by (simp add: cycle_body_def apply_action_def)

text \<open>
  C2, amended: the action string is not validated when the configuration is loaded. A
  document loads exactly when its default policy section, and each tracker section
  merged over it, has the three thresholds and no unknown key, whatever the action
  strings. The action is stored as it is written (\<open>"pause"\<close> when absent) in the default
  policy and in each tracker policy, and \<open>main\<close> goes on to the run loop with that
  configuration. Outside dry-run, the dispatch of an action whose lower-case form is none
  of \<open>pause\<close>, \<open>remove\<close>, \<open>remove_data\<close> calls nothing on the client, raises nothing and
  logs the audit line, and the cycle goes on.
\<close>

theorem unknown_action_not_validated:
  "(\<exists>c. from_dict data = Inr c) = doc_complete data
   \<and> (doc_complete data \<longrightarrow>
        (\<exists>c. from_dict data = Inr c
           \<and> action (default_policy c) = get_or (kw_action (default_kwargs data)) ''pause''
           \<and> main hostname \<lparr>args_config = data, args_once = once, args_dry_run = ov\<rparr> envs
               = Inr (run hostname (Sentinel_init c once ov) envs)))
   \<and> (from_dict data = Inr c \<and> tracker_policies c h = Some p \<longrightarrow>
        (\<exists>cfg. (h, cfg) \<in> set (tracker_docs data)
           \<and> action p = get_or (or_else (kw_action cfg) (kw_action (default_kwargs data)))
                          ''pause''))
   \<and> (Policy_init kw = Inr p' \<longrightarrow> Policy_init (kw\<lparr>kw_action := Some a\<rparr>) = Inr (p'\<lparr>action := a\<rparr>))
   \<and> (from_dict data = Inr c \<and> kw_action (default_kwargs data) = Some a
        \<longrightarrow> action (default_policy c) = a)
   \<and> (lower a \<noteq> ''pause'' \<and> lower a \<noteq> ''remove'' \<and> lower a \<noteq> ''remove_data''
        \<longrightarrow> apply_action cl False t host a rs = ([Log_info (audit_msg t host (lower a) rs)], None))
   \<and> (lower (action (resolve_policy c' host)) \<noteq> ''pause''
        \<and> lower (action (resolve_policy c' host)) \<noteq> ''remove''
        \<and> lower (action (resolve_policy c' host)) \<noteq> ''remove_data''
        \<and> get_tracker_host hostname cl (t_hash t) = Inr host
        \<and> match_tags (torrent_tags t) (resolve_policy c' host)
        \<and> evaluate (resolve_policy c' host) t now (st (t_hash t)) = (entry, rs) \<and> rs \<noteq> []
        \<longrightarrow> cycle_body hostname cl c' False now st t
             = (st(t_hash t \<mapsto> entry),
                [Log_info (audit_msg t host (lower (action (resolve_policy c' host))) rs)],
                None))"
proof (intro conjI impI)
  show "(\<exists>c. from_dict data = Inr c) = doc_complete data"
    by (rule from_dict_complete)
next
  assume "doc_complete data"
  with from_dict_complete [of data] obtain c0 where c0: "from_dict data = Inr c0" by auto
  from Policy_init_action [OF from_dict_Inr(1) [OF c0]]
  have "action (default_policy c0) = get_or (kw_action (default_kwargs data)) ''pause''" .
  moreover from c0
  have "main hostname \<lparr>args_config = data, args_once = once, args_dry_run = ov\<rparr> envs
               = Inr (run hostname (Sentinel_init c0 once ov) envs)"
    by (simp add: main_def load_config_def)
  ultimately show "\<exists>c. from_dict data = Inr c
           \<and> action (default_policy c) = get_or (kw_action (default_kwargs data)) ''pause''
           \<and> main hostname \<lparr>args_config = data, args_once = once, args_dry_run = ov\<rparr> envs
               = Inr (run hostname (Sentinel_init c once ov) envs)"
    using c0 by blast
next
  assume "from_dict data = Inr c \<and> tracker_policies c h = Some p"
  then have l: "from_dict data = Inr c" and hp: "tracker_policies c h = Some p" by simp_all
  from build_trackers_entry [OF from_dict_trackers [OF l] hp]
  obtain cfg where "(h, cfg) \<in> set (tracker_docs data)"
    and "Policy_init (merge_kwargs (default_kwargs data) cfg) = Inr p"
    by blast
  with Policy_init_action [of "merge_kwargs (default_kwargs data) cfg" p]
  show "\<exists>cfg. (h, cfg) \<in> set (tracker_docs data)
           \<and> action p = get_or (or_else (kw_action cfg) (kw_action (default_kwargs data)))
                          ''pause''"
    by (auto simp: merge_kwargs_def)
next
  assume "Policy_init kw = Inr p'"
  then show "Policy_init (kw\<lparr>kw_action := Some a\<rparr>) = Inr (p'\<lparr>action := a\<rparr>)"
    by (auto simp: Policy_init_def get_or_def split: option.splits if_splits)
next
  assume "from_dict data = Inr c \<and> kw_action (default_kwargs data) = Some a"
  with from_dict_Inr(1) [of data c] Policy_init_action [of "default_kwargs data" "default_policy c"]
  show "action (default_policy c) = a"
    by (simp add: get_or_def)
next
  assume "lower a \<noteq> ''pause'' \<and> lower a \<noteq> ''remove'' \<and> lower a \<noteq> ''remove_data''"
  then show "apply_action cl False t host a rs = ([Log_info (audit_msg t host (lower a) rs)], None)"
    by (simp add: apply_action_def)
next
  assume "lower (action (resolve_policy c' host)) \<noteq> ''pause''
        \<and> lower (action (resolve_policy c' host)) \<noteq> ''remove''
        \<and> lower (action (resolve_policy c' host)) \<noteq> ''remove_data''
        \<and> get_tracker_host hostname cl (t_hash t) = Inr host
        \<and> match_tags (torrent_tags t) (resolve_policy c' host)
        \<and> evaluate (resolve_policy c' host) t now (st (t_hash t)) = (entry, rs) \<and> rs \<noteq> []"
  then show "cycle_body hostname cl c' False now st t
             = (st(t_hash t \<mapsto> entry),
                [Log_info (audit_msg t host (lower (action (resolve_policy c' host))) rs)],
                None)"
    by (intro cycle_body_unknown_action) simp_all
qed

lemma doc_complete_bogus: "doc_complete doc_bogus"
  by (simp add: doc_complete_def kwargs_complete_def default_kwargs_def tracker_docs_def
        doc_bogus_def policy_of_def get_or_def empty_kwargs_def)

lemma from_dict_bogus_tracker:
  "from_dict doc_bogus_tracker
     = Inr ((cfg_of policy_ratio2)
         \<lparr>tracker_policies := [''tracker.example.org'' \<mapsto> policy_ratio2\<lparr>action := ''Bogus''\<rparr>],
          dry_run := True\<rparr>)"
  by (simp add: from_dict_def doc_bogus_tracker_def cfg_of_def policy_ratio2_def
        policy_of_def runtime_of_def get_or_def or_else_def empty_kwargs_def Policy_init_def
        merge_kwargs_def)

lemma cycle_body_bogus:
  "cycle_body no_hostname (client_ok [torrent_big]) cfg_bogus False 0 Map.empty torrent_big
     = (state_h1, [Log_info ''BOGUS | h1 | n1 | - | ratio''], None)"
  by (simp add: sentinel_defs cfg_bogus_def cfg_of_def policy_ratio2_def client_ok_def
        torrent_big_def state_h1_def)

theorem unknown_action_not_validated_witness:
  "doc_complete doc_bogus
   \<and> from_dict doc_bogus = Inr cfg_bogus
   \<and> kw_action (default_kwargs doc_bogus) = Some ''bogus''
   \<and> action (default_policy cfg_bogus) = ''bogus''
   \<and> main no_hostname \<lparr>args_config = doc_bogus, args_once = True, args_dry_run = False\<rparr>
        [env_ok [torrent_big] 0]
       = Inr (run no_hostname (Sentinel_init cfg_bogus True False) [env_ok [torrent_big] 0])
   \<and> (\<exists>cfg. (''tracker.example.org'', cfg) \<in> set (tracker_docs doc_bogus_tracker)
         \<and> action (policy_ratio2\<lparr>action := ''Bogus''\<rparr>)
             = get_or (or_else (kw_action cfg) (kw_action (default_kwargs doc_bogus_tracker)))
                 ''pause'')
   \<and> Policy_init (default_kwargs doc_thresholds_only) = Inr (default_policy cfg_thresholds_only)
   \<and> Policy_init ((default_kwargs doc_thresholds_only)\<lparr>kw_action := Some ''bogus''\<rparr>)
       = Inr ((default_policy cfg_thresholds_only)\<lparr>action := ''bogus''\<rparr>)
   \<and> lower ''bogus'' \<noteq> ''pause'' \<and> lower ''bogus'' \<noteq> ''remove''
   \<and> lower ''bogus'' \<noteq> ''remove_data''
   \<and> apply_action (client_ok [torrent_big]) False torrent_big None ''bogus'' [''ratio'']
       = ([Log_info ''BOGUS | h1 | n1 | - | ratio''], None)
   \<and> cycle_body no_hostname (client_ok [torrent_big]) cfg_bogus False 0 Map.empty torrent_big
       = (state_h1, [Log_info ''BOGUS | h1 | n1 | - | ratio''], None)"
proof -
  have a: "Policy_init (default_kwargs doc_thresholds_only) = Inr (default_policy cfg_thresholds_only)"
    by (rule from_dict_Inr(1) [OF from_dict_thresholds_only])
  have b: "kw_action (default_kwargs doc_bogus) = Some ''bogus''"
    by (simp add: default_kwargs_def doc_bogus_def policy_of_def get_or_def empty_kwargs_def)
  have c: "lower ''bogus'' \<noteq> ''pause'' \<and> lower ''bogus'' \<noteq> ''remove''
      \<and> lower ''bogus'' \<noteq> ''remove_data''"
    by (simp add: sentinel_defs)
  have m: "audit_msg torrent_big None (lower ''bogus'') [''ratio''] = ''BOGUS | h1 | n1 | - | ratio''"
    by (simp add: sentinel_defs torrent_big_def)
  note inst = unknown_action_not_validated [of doc_bogus no_hostname True False
      "[env_ok [torrent_big] 0]" cfg_bogus _ _ "default_kwargs doc_thresholds_only"
      "default_policy cfg_thresholds_only" "''bogus''"
      "client_ok [torrent_big]" torrent_big None "[''ratio'']"]
  note inst_t = unknown_action_not_validated [of doc_bogus_tracker _ _ _ _
      "(cfg_of policy_ratio2)
         \<lparr>tracker_policies := [''tracker.example.org'' \<mapsto> policy_ratio2\<lparr>action := ''Bogus''\<rparr>],
          dry_run := True\<rparr>" "''tracker.example.org''" "policy_ratio2\<lparr>action := ''Bogus''\<rparr>"]
  from inst doc_complete_bogus from_dict_bogus
  have "main no_hostname \<lparr>args_config = doc_bogus, args_once = True, args_dry_run = False\<rparr>
        [env_ok [torrent_big] 0]
       = Inr (run no_hostname (Sentinel_init cfg_bogus True False) [env_ok [torrent_big] 0])"
    by auto
  moreover from inst_t from_dict_bogus_tracker
  have "\<exists>cfg. (''tracker.example.org'', cfg) \<in> set (tracker_docs doc_bogus_tracker)
         \<and> action (policy_ratio2\<lparr>action := ''Bogus''\<rparr>)
             = get_or (or_else (kw_action cfg) (kw_action (default_kwargs doc_bogus_tracker)))
                 ''pause''"
    by simp
  moreover from inst a
  have "Policy_init ((default_kwargs doc_thresholds_only)\<lparr>kw_action := Some ''bogus''\<rparr>)
       = Inr ((default_policy cfg_thresholds_only)\<lparr>action := ''bogus''\<rparr>)"
    by blast
  moreover from inst b from_dict_bogus have "action (default_policy cfg_bogus) = ''bogus''"
    by blast
  moreover from inst c m
  have "apply_action (client_ok [torrent_big]) False torrent_big None ''bogus'' [''ratio'']
       = ([Log_info ''BOGUS | h1 | n1 | - | ratio''], None)"
    by simp
  ultimately show ?thesis
    using a b c from_dict_bogus doc_complete_bogus cycle_body_bogus by blast
qed


section \<open>A failing dispatch\<close>

text \<open>
  C3, as the claim states it, fails: two torrents reach the ratio threshold, the pause of
  the first raises \<open>APIConnectionError\<close>. The cycle stops there: the second torrent gets no
  idle state and no pause, and \<open>run\<close> logs the error and returns.
\<close>

theorem dispatch_error_counterexample:
  "self_state (fst (run no_hostname (Sentinel_init (cfg_of policy_ratio2) False False)
       [\<lparr>env_client = client_pause_fails APIConnectionError [torrent_big, torrent_movies],
         env_now = 0\<rparr>,
        \<lparr>env_client = client_ok [torrent_big, torrent_movies], env_now = 60\<rparr>])) ''h2'' = None
   \<and> snd (run no_hostname (Sentinel_init (cfg_of policy_ratio2) False False)
       [\<lparr>env_client = client_pause_fails APIConnectionError [torrent_big, torrent_movies],
         env_now = 0\<rparr>,
        \<lparr>env_client = client_ok [torrent_big, torrent_movies], env_now = 60\<rparr>])
       = ([Call_pause ''h1'', Log_error ''Connection error''], Returned)"
  by (simp add: sentinel_defs cfg_of_def policy_ratio2_def client_pause_fails_def client_ok_def
        torrent_big_def torrent_movies_def)

lemma apply_action_failing_call:
  "failing_call cl act (t_hash t) e call
     \<Longrightarrow> apply_action cl False t host act rs = ([call], Some e)"
  by (auto simp: failing_call_def apply_action_def after_call_def)

lemma cycle_body_failing_call:
  assumes "get_tracker_host hostname cl (t_hash t) = Inr host"
    and "match_tags (torrent_tags t) (resolve_policy c host)"
    and "evaluate (resolve_policy c host) t now (st (t_hash t)) = (entry, rs)" "rs \<noteq> []"
    and "failing_call cl (action (resolve_policy c host)) (t_hash t) e call"
  shows "cycle_body hostname cl c False now st t = (st(t_hash t \<mapsto> entry), [call], Some e)"
  using assms(1-4) apply_action_failing_call [OF assms(5), of host rs]
  by (simp add: cycle_body_def)

lemma run_failing_call:
  assumes "\<not> self_dry_run self"
    and "torrents_info (env_client env) = Inr (pre @ t # post)"
    and "cycle_loop hostname (env_client env) (self_cfg self) False (env_now env)
           (self_state self) pre = (st1, evs1, None)"
    and "get_tracker_host hostname (env_client env) (t_hash t) = Inr host"
    and "match_tags (torrent_tags t) (resolve_policy (self_cfg self) host)"
    and "evaluate (resolve_policy (self_cfg self) host) t (env_now env) (st1 (t_hash t))
           = (entry, rs)" "rs \<noteq> []"
    and "failing_call (env_client env) (action (resolve_policy (self_cfg self) host))
           (t_hash t) e call"
  shows "run hostname self (env # envs)
       = (self\<lparr>self_state := st1(t_hash t \<mapsto> entry)\<rparr>,
          evs1 @ [call] @ (if e = LoginFailed then [Log_error ''Login failed'']
                           else if e = APIConnectionError then [Log_error ''Connection error'']
                           else []),
          if e = LoginFailed \<or> e = APIConnectionError then Returned else Raised e)"
proof -
  have "cycle_body hostname (env_client env) (self_cfg self) False (env_now env) st1 t
      = (st1(t_hash t \<mapsto> entry), [call], Some e)"
    by (rule cycle_body_failing_call [where st = st1, OF assms(4-8)])
  from cycle_loop_abort [OF assms(3) this]
  have "cycle_loop hostname (env_client env) (self_cfg self) False (env_now env)
           (self_state self) (pre @ t # post) = (st1(t_hash t \<mapsto> entry), evs1 @ [call], Some e)" .
  with assms(1,2)
  have "cycle hostname self env
      = (self\<lparr>self_state := st1(t_hash t \<mapsto> entry)\<rparr>, evs1 @ [call], Some e)"
    by (simp add: cycle_def)
  then show ?thesis by simp
qed

text \<open>
  C3, amended: when the pause or delete call of a torrent raises, \<open>_apply_action\<close> has
  made that call and logged nothing; the exception leaves the loop of the cycle, so the
  torrents after it are not evaluated (the idle state of the torrents before it, and of
  the torrent itself, stays updated); \<open>run\<close> then logs an error and returns when the
  exception is \<open>LoginFailed\<close> or \<open>APIConnectionError\<close>, and lets any other exception
  propagate. No further cycle runs.
\<close>

theorem dispatch_error_aborts_cycle:
  "(failing_call cl act (t_hash t) e call
      \<longrightarrow> apply_action cl False t host act rs = ([call], Some e))
   \<and> (\<not> self_dry_run self
        \<and> torrents_info (env_client env) = Inr (pre @ t # post)
        \<and> cycle_loop hostname (env_client env) (self_cfg self) False (env_now env)
             (self_state self) pre = (st1, evs1, None)
        \<and> get_tracker_host hostname (env_client env) (t_hash t) = Inr host
        \<and> match_tags (torrent_tags t) (resolve_policy (self_cfg self) host)
        \<and> evaluate (resolve_policy (self_cfg self) host) t (env_now env) (st1 (t_hash t))
             = (entry, rs) \<and> rs \<noteq> []
        \<and> failing_call (env_client env) (action (resolve_policy (self_cfg self) host))
             (t_hash t) e call
      \<longrightarrow> run hostname self (env # envs)
           = (self\<lparr>self_state := st1(t_hash t \<mapsto> entry)\<rparr>,
              evs1 @ [call] @ (if e = LoginFailed then [Log_error ''Login failed'']
                               else if e = APIConnectionError
                               then [Log_error ''Connection error'']
                               else []),
              if e = LoginFailed \<or> e = APIConnectionError then Returned else Raised e))
   \<and> (apply_action cl dry t host act rs = (evs, Some e)
      \<longrightarrow> \<not> dry \<and> (evs = [Call_pause (t_hash t)] \<or> evs = [Call_delete False (t_hash t)]
                    \<or> evs = [Call_delete True (t_hash t)]))
   \<and> (cycle_loop hostname cl c dry now st pre = (st1, evs1, None)
        \<and> cycle_body hostname cl c dry now st1 t = (st2, evs2, Some e)
      \<longrightarrow> cycle_loop hostname cl c dry now st (pre @ t # post) = (st2, evs1 @ evs2, Some e))
   \<and> (cycle hostname self env = (self', evs', Some e)
      \<longrightarrow> run hostname self (env # envs)
           = (self',
              evs' @ (if e = LoginFailed then [Log_error ''Login failed'']
                      else if e = APIConnectionError then [Log_error ''Connection error'']
                      else []),
              if e = LoginFailed \<or> e = APIConnectionError then Returned else Raised e))"
proof (intro conjI impI)
  assume "failing_call cl act (t_hash t) e call"
  then show "apply_action cl False t host act rs = ([call], Some e)"
    by (rule apply_action_failing_call)
next
  assume h: "\<not> self_dry_run self
        \<and> torrents_info (env_client env) = Inr (pre @ t # post)
        \<and> cycle_loop hostname (env_client env) (self_cfg self) False (env_now env)
             (self_state self) pre = (st1, evs1, None)
        \<and> get_tracker_host hostname (env_client env) (t_hash t) = Inr host
        \<and> match_tags (torrent_tags t) (resolve_policy (self_cfg self) host)
        \<and> evaluate (resolve_policy (self_cfg self) host) t (env_now env) (st1 (t_hash t))
             = (entry, rs) \<and> rs \<noteq> []
        \<and> failing_call (env_client env) (action (resolve_policy (self_cfg self) host))
             (t_hash t) e call"
  show "run hostname self (env # envs)
           = (self\<lparr>self_state := st1(t_hash t \<mapsto> entry)\<rparr>,
              evs1 @ [call] @ (if e = LoginFailed then [Log_error ''Login failed'']
                               else if e = APIConnectionError
                               then [Log_error ''Connection error'']
                               else []),
              if e = LoginFailed \<or> e = APIConnectionError then Returned else Raised e)"
    by (rule run_failing_call [where ?st1.0 = st1 and host = host and rs = rs])
      (use h in blast)+
next
  assume "apply_action cl dry t host act rs = (evs, Some e)"
  from apply_action_raises [OF this]
  show "\<not> dry" and "evs = [Call_pause (t_hash t)] \<or> evs = [Call_delete False (t_hash t)]
                    \<or> evs = [Call_delete True (t_hash t)]"
    by simp_all
next
  assume "cycle_loop hostname cl c dry now st pre = (st1, evs1, None)
        \<and> cycle_body hostname cl c dry now st1 t = (st2, evs2, Some e)"
  then show "cycle_loop hostname cl c dry now st (pre @ t # post) = (st2, evs1 @ evs2, Some e)"
    by (simp add: cycle_loop_abort)
next
  assume "cycle hostname self env = (self', evs', Some e)"
  then show "run hostname self (env # envs)
           = (self',
              evs' @ (if e = LoginFailed then [Log_error ''Login failed'']
                      else if e = APIConnectionError then [Log_error ''Connection error'']
                      else []),
              if e = LoginFailed \<or> e = APIConnectionError then Returned else Raised e)"
    by simp
qed

lemma failing_call_pause_example:
  "failing_call (env_client env_pause_fails) ''pause'' (t_hash torrent_big) APIError
     (Call_pause ''h1'')"
  by (simp add: failing_call_def lower_def upper_letters_def lower_letters_def get_or_def
        env_pause_fails_def client_pause_fails_def torrent_big_def)

lemma failing_call_delete_example:
  "failing_call (client_delete_fails APIConnectionError [torrent_big]) ''Remove_Data''
     (t_hash torrent_big) APIConnectionError (Call_delete True ''h1'')"
  by (simp add: failing_call_def lower_def upper_letters_def lower_letters_def get_or_def
        client_delete_fails_def torrent_big_def)

theorem dispatch_error_aborts_cycle_witness:
  "failing_call (env_client env_pause_fails) ''pause'' (t_hash torrent_big) APIError
     (Call_pause ''h1'')
   \<and> apply_action (env_client env_pause_fails) False torrent_big None ''pause'' [''ratio'']
       = ([Call_pause ''h1''], Some APIError)
   \<and> failing_call (client_delete_fails APIConnectionError [torrent_big]) ''Remove_Data''
       (t_hash torrent_big) APIConnectionError (Call_delete True ''h1'')
   \<and> apply_action (client_delete_fails APIConnectionError [torrent_big]) False torrent_big None
        ''Remove_Data'' [''ratio'']
       = ([Call_delete True ''h1''], Some APIConnectionError)
   \<and> \<not> self_dry_run sentinel_ratio2
   \<and> torrents_info (env_client env_pause_fails) = Inr ([] @ torrent_big # [torrent_movies])
   \<and> cycle_loop no_hostname (env_client env_pause_fails) (cfg_of policy_ratio2) False 0
        Map.empty [] = (Map.empty, [], None)
   \<and> get_tracker_host no_hostname (env_client env_pause_fails) (t_hash torrent_big) = Inr None
   \<and> match_tags (torrent_tags torrent_big) (resolve_policy (cfg_of policy_ratio2) None)
   \<and> evaluate (resolve_policy (cfg_of policy_ratio2) None) torrent_big 0 None
       = (\<lparr>uploaded = 1000, last_up = 0\<rparr>, [''ratio''])
   \<and> cycle_body no_hostname (env_client env_pause_fails) (cfg_of policy_ratio2) False 0
        Map.empty torrent_big = (state_h1, [Call_pause ''h1''], Some APIError)
   \<and> cycle_loop no_hostname (env_client env_pause_fails) (cfg_of policy_ratio2) False 0
        Map.empty ([] @ torrent_big # [torrent_movies])
       = (state_h1, [] @ [Call_pause ''h1''], Some APIError)
   \<and> cycle no_hostname sentinel_ratio2 env_pause_fails
       = (sentinel_ratio2\<lparr>self_state := state_h1\<rparr>, [Call_pause ''h1''], Some APIError)
   \<and> run no_hostname sentinel_ratio2 (env_pause_fails # [env_ok [torrent_big, torrent_movies] 60])
       = (sentinel_ratio2\<lparr>self_state := state_h1\<rparr>, [Call_pause ''h1''], Raised APIError)"
proof -
  have s: "self_cfg sentinel_ratio2 = cfg_of policy_ratio2"
    "self_state sentinel_ratio2 = Map.empty" "env_now env_pause_fails = 0"
    by (simp_all add: sentinel_ratio2_def Sentinel_init_def env_pause_fails_def)
  have h1: "\<not> self_dry_run sentinel_ratio2"
    by (simp add: sentinel_ratio2_def Sentinel_init_def cfg_of_def)
  have h2: "torrents_info (env_client env_pause_fails) = Inr ([] @ torrent_big # [torrent_movies])"
    by (simp add: env_pause_fails_def client_pause_fails_def)
  have h3: "cycle_loop no_hostname (env_client env_pause_fails) (cfg_of policy_ratio2) False 0
        Map.empty [] = (Map.empty, [], None)"
    by simp
  have h4: "get_tracker_host no_hostname (env_client env_pause_fails) (t_hash torrent_big)
      = Inr None"
    by (simp add: get_tracker_host_def env_pause_fails_def client_pause_fails_def)
  have h5: "match_tags (torrent_tags torrent_big) (resolve_policy (cfg_of policy_ratio2) None)"
    by (simp add: match_tags_def resolve_policy_def cfg_of_def policy_ratio2_def)
  have h6: "evaluate (resolve_policy (cfg_of policy_ratio2) None) torrent_big 0 None
       = (\<lparr>uploaded = 1000, last_up = 0\<rparr>, [''ratio''])"
    by (simp add: evaluate_def ratio_seeding_reasons_def resolve_policy_def cfg_of_def
          policy_ratio2_def torrent_big_def get_or_def)
  have h8: "failing_call (env_client env_pause_fails)
      (action (resolve_policy (cfg_of policy_ratio2) None)) (t_hash torrent_big) APIError
      (Call_pause ''h1'')"
    using failing_call_pause_example
    by (simp add: resolve_policy_def cfg_of_def policy_ratio2_def)
  have c: "cycle_body no_hostname (env_client env_pause_fails) (cfg_of policy_ratio2) False 0
        Map.empty torrent_big = (state_h1, [Call_pause ''h1''], Some APIError)"
    by (simp add: sentinel_defs env_pause_fails_def client_pause_fails_def cfg_of_def
          policy_ratio2_def torrent_big_def state_h1_def)
  have d: "cycle no_hostname sentinel_ratio2 env_pause_fails
       = (sentinel_ratio2\<lparr>self_state := state_h1\<rparr>, [Call_pause ''h1''], Some APIError)"
    by (simp add: sentinel_defs env_pause_fails_def client_pause_fails_def cfg_of_def
          policy_ratio2_def torrent_big_def torrent_movies_def state_h1_def sentinel_ratio2_def)
  have st: "Map.empty(t_hash torrent_big \<mapsto> \<lparr>uploaded = 1000, last_up = 0\<rparr>) = state_h1"
    by (simp add: state_h1_def torrent_big_def)
  note inst = dispatch_error_aborts_cycle [where cl = "env_client env_pause_fails"
      and act = "''pause''" and t = torrent_big and e = APIError and call = "Call_pause ''h1''"
      and host = None and rs = "[''ratio'']" and self = sentinel_ratio2
      and env = env_pause_fails and pre = "[]" and post = "[torrent_movies]"
      and hostname = no_hostname and ?st1.0 = Map.empty and ?evs1.0 = "[]"
      and entry = "\<lparr>uploaded = 1000, last_up = 0\<rparr>"
      and envs = "[env_ok [torrent_big, torrent_movies] 60]"
      and c = "cfg_of policy_ratio2" and dry = False and now = 0 and st = Map.empty
      and ?st2.0 = state_h1 and ?evs2.0 = "[Call_pause ''h1'']"]
  note inst_d = dispatch_error_aborts_cycle [where cl = "client_delete_fails APIConnectionError
      [torrent_big]" and act = "''Remove_Data''" and t = torrent_big and e = APIConnectionError
      and call = "Call_delete True ''h1''" and host = None and rs = "[''ratio'']"]
  from inst failing_call_pause_example
  have a: "apply_action (env_client env_pause_fails) False torrent_big None ''pause'' [''ratio'']
       = ([Call_pause ''h1''], Some APIError)"
    by blast
  from inst_d failing_call_delete_example
  have a': "apply_action (client_delete_fails APIConnectionError [torrent_big]) False torrent_big
        None ''Remove_Data'' [''ratio'']
       = ([Call_delete True ''h1''], Some APIConnectionError)"
    by blast
  from inst [THEN conjunct2, THEN conjunct1] s h1 h2 h3 h4 h5 h6 h8 st
  have r: "run no_hostname sentinel_ratio2
        (env_pause_fails # [env_ok [torrent_big, torrent_movies] 60])
       = (sentinel_ratio2\<lparr>self_state := state_h1\<rparr>, [Call_pause ''h1''], Raised APIError)"
    by simp
  from inst h3 c
  have l: "cycle_loop no_hostname (env_client env_pause_fails) (cfg_of policy_ratio2) False 0
        Map.empty ([] @ torrent_big # [torrent_movies])
       = (state_h1, [] @ [Call_pause ''h1''], Some APIError)"
    by blast
  from failing_call_pause_example a failing_call_delete_example a' h1 h2 h3 h4 h5 h6 c l d r
  show ?thesis by blast
qed


section \<open>Torrents the tag filter rejects\<close>

text \<open>
  C8: for a torrent that the tag filter rejects, the loop body returns the state as it
  was, with no event and no exception (the rules are not evaluated, nothing is
  dispatched). Over the whole loop: when every torrent of the cycle that has the hash
  \<open>h\<close> is rejected, the state at \<open>h\<close> after the loop is the state at \<open>h\<close> before it (no
  entry created, none modified), and no pause or delete is called for \<open>h\<close>.
\<close>

theorem tag_rejected_frame:
  "(tag_rejected hostname cl c t \<longrightarrow> cycle_body hostname cl c dry now st t = (st, [], None))
   \<and> ((\<forall>t\<in>set ts. t_hash t = h \<longrightarrow> tag_rejected hostname cl c t)
        \<and> cycle_loop hostname cl c dry now st ts = (st', evs, r)
      \<longrightarrow> st' h = st h \<and> Call_pause h \<notin> set evs \<and> Call_delete False h \<notin> set evs
          \<and> Call_delete True h \<notin> set evs)"
proof (intro conjI impI)
  assume "tag_rejected hostname cl c t"
  then show "cycle_body hostname cl c dry now st t = (st, [], None)"
    by (auto simp: tag_rejected_def cycle_body_rejected split: sum.splits)
next
  assume a: "(\<forall>t\<in>set ts. t_hash t = h \<longrightarrow> tag_rejected hostname cl c t)
        \<and> cycle_loop hostname cl c dry now st ts = (st', evs, r)"
  then have l: "cycle_loop hostname cl c dry now st ts = (st', evs, r)"
    and rej: "\<forall>t\<in>set ts. t_hash t = h \<longrightarrow> tag_rejected hostname cl c t"
    by simp_all
  from cycle_loop_frame [OF l rej] show "st' h = st h" .
  have no: "ev \<notin> set evs"
    if "ev = Call_pause h \<or> ev = Call_delete False h \<or> ev = Call_delete True h" for ev
  proof
    assume "ev \<in> set evs"
    moreover from that have "is_call ev" by auto
    ultimately obtain t where "t \<in> set ts" "tag_rejected hostname cl c t = False"
      "ev = Call_pause (t_hash t) \<or> ev = Call_delete False (t_hash t)
         \<or> ev = Call_delete True (t_hash t)"
      using cycle_loop_calls [OF l] by blast
    with that rej show False by auto
  qed
  from no show "Call_pause h \<notin> set evs" by simp
  from no show "Call_delete False h \<notin> set evs" by simp
  from no show "Call_delete True h \<notin> set evs" by simp
qed

lemma tag_rejected_movies:
  "tag_rejected no_hostname (client_ok [torrent_tv, torrent_movies]) (cfg_of policy_tv)
     torrent_movies"
  by (simp add: tag_rejected_def sentinel_defs client_ok_def cfg_of_def policy_tv_def
        torrent_movies_def)

lemma cycle_loop_tv_movies:
  "cycle_loop no_hostname (client_ok [torrent_tv, torrent_movies]) (cfg_of policy_tv) False 60
      state_h2 [torrent_tv, torrent_movies]
     = (state_h2(''h3'' \<mapsto> \<lparr>uploaded = 7000, last_up = 60\<rparr>),
        [Call_pause ''h3'', Log_info ''PAUSE | h3 | n3 | - | ratio''], None)"
  by (simp add: sentinel_defs client_ok_def cfg_of_def policy_tv_def torrent_movies_def
        torrent_tv_def state_h2_def)

theorem tag_rejected_frame_witness:
  "tag_rejected no_hostname (client_ok [torrent_tv, torrent_movies]) (cfg_of policy_tv)
     torrent_movies
   \<and> cycle_body no_hostname (client_ok [torrent_tv, torrent_movies]) (cfg_of policy_tv) False 60
        state_h2 torrent_movies = (state_h2, [], None)
   \<and> cycle_loop no_hostname (client_ok [torrent_tv, torrent_movies]) (cfg_of policy_tv) False 60
        state_h2 [torrent_tv, torrent_movies]
       = (state_h2(''h3'' \<mapsto> \<lparr>uploaded = 7000, last_up = 60\<rparr>),
          [Call_pause ''h3'', Log_info ''PAUSE | h3 | n3 | - | ratio''], None)
   \<and> (state_h2(''h3'' \<mapsto> \<lparr>uploaded = 7000, last_up = 60\<rparr>)) ''h2'' = state_h2 ''h2''
   \<and> Call_pause ''h2'' \<notin> set [Call_pause ''h3'', Log_info ''PAUSE | h3 | n3 | - | ratio'']"
proof -
  have rej: "\<forall>t\<in>set [torrent_tv, torrent_movies].
      t_hash t = ''h2'' \<longrightarrow> tag_rejected no_hostname (client_ok [torrent_tv, torrent_movies])
        (cfg_of policy_tv) t"
    using tag_rejected_movies by (simp add: torrent_tv_def)
  note inst = tag_rejected_frame [of no_hostname "client_ok [torrent_tv, torrent_movies]"
      "cfg_of policy_tv" torrent_movies False 60 state_h2 "[torrent_tv, torrent_movies]" "''h2''"
      "state_h2(''h3'' \<mapsto> \<lparr>uploaded = 7000, last_up = 60\<rparr>)"
      "[Call_pause ''h3'', Log_info ''PAUSE | h3 | n3 | - | ratio'']" None]
  from inst tag_rejected_movies
  have "cycle_body no_hostname (client_ok [torrent_tv, torrent_movies]) (cfg_of policy_tv) False 60
        state_h2 torrent_movies = (state_h2, [], None)"
    by blast
  moreover from inst rej cycle_loop_tv_movies
  have "(state_h2(''h3'' \<mapsto> \<lparr>uploaded = 7000, last_up = 60\<rparr>)) ''h2'' = state_h2 ''h2''
   \<and> Call_pause ''h2'' \<notin> set [Call_pause ''h3'', Log_info ''PAUSE | h3 | n3 | - | ratio'']"
    by blast
  ultimately show ?thesis using tag_rejected_movies cycle_loop_tv_movies by blast
qed

section \<open>The idle state over time\<close>

lemma state_le_refl: "state_le tm st st"
  by (simp add: state_le_def)

lemma state_le_trans: "state_le tm a b \<Longrightarrow> state_le tm b c \<Longrightarrow> state_le tm a c"
  unfolding state_le_def by (meson order_trans)

lemma bounded_empty: "bounded n Map.empty"
  by (simp add: bounded_def)

lemma fst_evaluate:
  "fst (evaluate p t now entry) =
     (case entry of
        None \<Rightarrow> \<lparr>uploaded = t_uploaded t, last_up = now\<rparr>
      | Some e \<Rightarrow> if uploaded e < t_uploaded t then \<lparr>uploaded = t_uploaded t, last_up = now\<rparr>
                  else e)"
  by (simp add: evaluate_def Let_def get_or_def split: option.splits)

lemma cycle_body_state:
  assumes "cycle_body hostname cl c dry now st t = (st', evs, r)"
  shows "st' = st \<or> (\<exists>p. st' = st(t_hash t \<mapsto> fst (evaluate p t now (st (t_hash t)))))"
  using cycle_body_cases [OF assms] by (metis fst_conv)

lemma cycle_body_bounded:
  assumes "cycle_body hostname cl c dry now st t = (st', evs, r)" "now \<le> n" "bounded n st"
  shows "bounded n st'"
  using cycle_body_state [OF assms(1)] assms(2,3)
  by (auto simp: bounded_def fst_evaluate split: option.splits if_splits)

lemma cycle_body_le:
  assumes "cycle_body hostname cl c dry now st t = (st', evs, r)" "tm \<longrightarrow> bounded now st"
  shows "state_le tm st st'"
  using cycle_body_state [OF assms(1)] assms(2)
  by (auto simp: bounded_def state_le_def fst_evaluate split: option.splits if_splits)

lemma cycle_loop_bounded:
  "cycle_loop hostname cl c dry now st ts = (st', evs, r) \<Longrightarrow> now \<le> n \<Longrightarrow> bounded n st
     \<Longrightarrow> bounded n st'"
proof (induction ts arbitrary: st st' evs r)
  case Nil
  then show ?case by simp
next
  case (Cons t ts)
  obtain st1 evs1 r1 where b: "cycle_body hostname cl c dry now st t = (st1, evs1, r1)"
    by (cases "cycle_body hostname cl c dry now st t") auto
  have b1: "bounded n st1"
    by (rule cycle_body_bounded [OF b Cons.prems(2,3)])
  obtain st2 evs2 r2 where l: "cycle_loop hostname cl c dry now st1 ts = (st2, evs2, r2)"
    by (cases "cycle_loop hostname cl c dry now st1 ts") auto
  from b l Cons.prems(1) have "st' = st1 \<or> st' = st2"
    by (auto split: option.splits)
  with b1 Cons.IH [OF l Cons.prems(2) b1] show ?case by auto
qed

lemma cycle_loop_le:
  "cycle_loop hostname cl c dry now st ts = (st', evs, r) \<Longrightarrow> tm \<longrightarrow> bounded now st
     \<Longrightarrow> state_le tm st st'"
proof (induction ts arbitrary: st st' evs r)
  case Nil
  then show ?case by (simp add: state_le_refl)
next
  case (Cons t ts)
  obtain st1 evs1 r1 where b: "cycle_body hostname cl c dry now st t = (st1, evs1, r1)"
    by (cases "cycle_body hostname cl c dry now st t") auto
  have le1: "state_le tm st st1"
    by (rule cycle_body_le [OF b Cons.prems(2)])
  have b1: "tm \<longrightarrow> bounded now st1"
    using cycle_body_bounded [OF b order_refl] Cons.prems(2) by simp
  obtain st2 evs2 r2 where l: "cycle_loop hostname cl c dry now st1 ts = (st2, evs2, r2)"
    by (cases "cycle_loop hostname cl c dry now st1 ts") auto
  from b l Cons.prems(1) have "st' = st1 \<or> st' = st2"
    by (auto split: option.splits)
  with le1 Cons.IH [OF l b1] show ?case by (auto intro: state_le_trans)
qed

lemma cycle_state:
  assumes "cycle hostname self env = (self', evs, r)"
  shows "self_state self' = self_state self
       \<or> (\<exists>torrents evs' r'. cycle_loop hostname (env_client env) (self_cfg self)
             (self_dry_run self) (env_now env) (self_state self) torrents
            = (self_state self', evs', r'))"
  using assms by (auto simp: cycle_def split: sum.splits prod.splits)

lemma cycle_bounded:
  assumes "cycle hostname self env = (self', evs, r)" "env_now env \<le> n"
    "bounded n (self_state self)"
  shows "bounded n (self_state self')"
  using cycle_state [OF assms(1)] assms(2,3) by (auto dest: cycle_loop_bounded)

lemma cycle_le:
  assumes "cycle hostname self env = (self', evs, r)"
    "tm \<longrightarrow> bounded (env_now env) (self_state self)"
  shows "state_le tm (self_state self) (self_state self')"
  using cycle_state [OF assms(1)] assms(2) by (auto simp: state_le_refl dest: cycle_loop_le)

lemma run_bounded:
  "run hostname self envs = (self', evs, r) \<Longrightarrow> \<forall>env\<in>set envs. env_now env \<le> n
     \<Longrightarrow> bounded n (self_state self) \<Longrightarrow> bounded n (self_state self')"
proof (induction envs arbitrary: self self' evs r)
  case Nil
  then show ?case by simp
next
  case (Cons env envs)
  obtain s1 evs1 r1 where c: "cycle hostname self env = (s1, evs1, r1)"
    by (cases "cycle hostname self env") auto
  from Cons.prems(2) have "env_now env \<le> n" by simp
  from cycle_bounded [OF c this Cons.prems(3)] have b1: "bounded n (self_state s1)" .
  obtain s2 evs2 r2 where r: "run hostname s1 envs = (s2, evs2, r2)"
    by (cases "run hostname s1 envs") auto
  from Cons.prems(1) c r have "self' = s1 \<or> self' = s2"
    by (auto split: option.splits if_splits)
  moreover from Cons.IH [OF r _ b1] Cons.prems(2) have "bounded n (self_state s2)" by simp
  ultimately show ?case using b1 by auto
qed

lemma run_le:
  "run hostname self envs = (self', evs, r)
     \<Longrightarrow> tm \<longrightarrow> sorted (map env_now envs)
             \<and> (\<forall>env\<in>set envs. bounded (env_now env) (self_state self))
     \<Longrightarrow> state_le tm (self_state self) (self_state self')"
proof (induction envs arbitrary: self self' evs r)
  case Nil
  then show ?case by (simp add: state_le_refl)
next
  case (Cons env envs)
  obtain s1 evs1 r1 where c: "cycle hostname self env = (s1, evs1, r1)"
    by (cases "cycle hostname self env") auto
  from Cons.prems(2) have b0: "tm \<longrightarrow> bounded (env_now env) (self_state self)" by simp
  from cycle_le [OF c b0] have le1: "state_le tm (self_state self) (self_state s1)" .
  obtain s2 evs2 r2 where r: "run hostname s1 envs = (s2, evs2, r2)"
    by (cases "run hostname s1 envs") auto
  have "tm \<longrightarrow> sorted (map env_now envs)
             \<and> (\<forall>env'\<in>set envs. bounded (env_now env') (self_state s1))"
  proof (intro impI conjI ballI)
    assume tm
    with Cons.prems(2) show "sorted (map env_now envs)" by simp
    fix env' assume in': "env' \<in> set envs"
    with \<open>tm\<close> Cons.prems(2) have "env_now env \<le> env_now env'"
      and "bounded (env_now env') (self_state self)" by auto
    then show "bounded (env_now env') (self_state s1)" by (rule cycle_bounded [OF c])
  qed
  from Cons.IH [OF r this] have le2: "state_le tm (self_state s1) (self_state s2)" .
  from Cons.prems(1) c r have "self' = s1 \<or> self' = s2"
    by (auto split: option.splits if_splits)
  with le1 le2 show ?case by (auto intro: state_le_trans)
qed

lemma run_append:
  "run hostname self (a @ b) =
     (case run hostname self a of
        (s1, evs1, r1) \<Rightarrow>
          if r1 = Running
          then (case run hostname s1 b of (s2, evs2, r) \<Rightarrow> (s2, evs1 @ evs2, r))
          else (s1, evs1, r1))"
  by (induction a arbitrary: self) (auto split: prod.splits option.splits)

text \<open>
  C10, as the claim states it, fails for the timestamp: \<open>now\<close> is \<open>time.time()\<close>, the wall
  clock, which may be set back between two cycles. The stored \<open>last_up\<close> then decreases
  when the torrent has uploaded more.
\<close>

theorem last_up_decreases_counterexample:
  "self_state (fst (run no_hostname sentinel_disabled [env_ok [torrent_big] 100])) ''h1''
     = Some \<lparr>uploaded = 1000, last_up = 100\<rparr>
   \<and> self_state (fst (run no_hostname sentinel_disabled
         [env_ok [torrent_big] 100, env_ok [torrent_more] 50])) ''h1''
     = Some \<lparr>uploaded = 2000, last_up = 50\<rparr>"
  by (simp add: sentinel_defs env_ok_def client_ok_def cfg_of_def policy_disabled_def
        torrent_big_def torrent_more_def sentinel_disabled_def)

text \<open>
  C10, amended: across the cycles of a run, an entry of the idle state, once created, is
  never removed and its stored uploaded bytes never decrease; its stored timestamp
  never decreases provided the clock readings of the successive cycles do not decrease.
  An entry is replaced only when the observed uploaded bytes strictly exceed the
  stored value.
\<close>

theorem idle_state_monotone:
  assumes "run hostname (Sentinel_init c once ov) envs1 = (s1, evs1, r1)"
    and "run hostname (Sentinel_init c once ov) (envs1 @ envs2) = (s2, evs2, r2)"
    and "self_state s1 h = Some e"
  shows "(\<exists>e'. self_state s2 h = Some e' \<and> uploaded e \<le> uploaded e'
            \<and> (sorted (map env_now (envs1 @ envs2)) \<longrightarrow> last_up e \<le> last_up e'))
       \<and> fst (evaluate p t now (Some e))
           = (if uploaded e < t_uploaded t then \<lparr>uploaded = t_uploaded t, last_up = now\<rparr>
              else e)"
proof -
  let ?tm = "sorted (map env_now (envs1 @ envs2))"
  have "state_le ?tm (self_state s1) (self_state s2)"
  proof (cases "r1 = Running")
    case False
    with assms(1,2) have "s2 = s1" by (simp add: run_append)
    then show ?thesis by (simp add: state_le_refl)
  next
    case True
    obtain s3 evs3 r3 where r: "run hostname s1 envs2 = (s3, evs3, r3)"
      by (cases "run hostname s1 envs2") auto
    with True assms(1,2) have eq: "s2 = s3" by (simp add: run_append)
    have "?tm \<longrightarrow> sorted (map env_now envs2)
             \<and> (\<forall>env\<in>set envs2. bounded (env_now env) (self_state s1))"
    proof (intro impI conjI ballI)
      assume tm: ?tm
      then show "sorted (map env_now envs2)" by (simp add: sorted_append)
      fix env assume "env \<in> set envs2"
      with tm have "\<forall>env'\<in>set envs1. env_now env' \<le> env_now env"
        by (auto simp: sorted_append)
      from run_bounded [OF assms(1) this] show "bounded (env_now env) (self_state s1)"
        by (simp add: Sentinel_init_def bounded_empty)
    qed
    from run_le [OF r this] eq show ?thesis by simp
  qed
  with assms(3) show ?thesis
    by (simp add: state_le_def fst_evaluate)
qed

lemma run_disabled_1:
  "run no_hostname (Sentinel_init (cfg_of policy_disabled) False False) [env_ok [torrent_big] 100]
     = (sentinel_disabled\<lparr>self_state := [''h1'' \<mapsto> \<lparr>uploaded = 1000, last_up = 100\<rparr>]\<rparr>,
        [Sleep 60], Running)"
  by (simp add: sentinel_defs env_ok_def client_ok_def cfg_of_def policy_disabled_def
        torrent_big_def sentinel_disabled_def)

lemma run_disabled_2:
  "run no_hostname (Sentinel_init (cfg_of policy_disabled) False False)
       ([env_ok [torrent_big] 100] @ [env_ok [torrent_more] 200])
     = (sentinel_disabled\<lparr>self_state := [''h1'' \<mapsto> \<lparr>uploaded = 2000, last_up = 200\<rparr>]\<rparr>,
        [Sleep 60, Sleep 60], Running)"
  by (simp add: sentinel_defs env_ok_def client_ok_def cfg_of_def policy_disabled_def
        torrent_big_def torrent_more_def sentinel_disabled_def)

theorem idle_state_monotone_witness:
  "run no_hostname (Sentinel_init (cfg_of policy_disabled) False False) [env_ok [torrent_big] 100]
     = (sentinel_disabled\<lparr>self_state := [''h1'' \<mapsto> \<lparr>uploaded = 1000, last_up = 100\<rparr>]\<rparr>,
        [Sleep 60], Running)
   \<and> run no_hostname (Sentinel_init (cfg_of policy_disabled) False False)
       ([env_ok [torrent_big] 100] @ [env_ok [torrent_more] 200])
     = (sentinel_disabled\<lparr>self_state := [''h1'' \<mapsto> \<lparr>uploaded = 2000, last_up = 200\<rparr>]\<rparr>,
        [Sleep 60, Sleep 60], Running)
   \<and> sorted (map env_now ([env_ok [torrent_big] 100] @ [env_ok [torrent_more] 200]))
   \<and> (\<exists>e'. [''h1'' \<mapsto> \<lparr>uploaded = 2000, last_up = 200\<rparr>] ''h1'' = Some e'
         \<and> 1000 \<le> uploaded e' \<and> 100 \<le> last_up e')
   \<and> fst (evaluate policy_disabled torrent_more 200 (Some \<lparr>uploaded = 1000, last_up = 100\<rparr>))
       = \<lparr>uploaded = 2000, last_up = 200\<rparr>"
proof -
  have s: "sorted (map env_now ([env_ok [torrent_big] 100] @ [env_ok [torrent_more] 200]))"
    by (simp add: env_ok_def)
  have u: "t_uploaded torrent_more = 2000"
    by (simp add: torrent_more_def)
  from idle_state_monotone [OF run_disabled_1 run_disabled_2,
      of "''h1''" "\<lparr>uploaded = 1000, last_up = 100\<rparr>" policy_disabled torrent_more 200] s u
  have "(\<exists>e'. [''h1'' \<mapsto> \<lparr>uploaded = 2000, last_up = 200\<rparr>] ''h1'' = Some e'
         \<and> 1000 \<le> uploaded e' \<and> 100 \<le> last_up e')
   \<and> fst (evaluate policy_disabled torrent_more 200 (Some \<lparr>uploaded = 1000, last_up = 100\<rparr>))
       = \<lparr>uploaded = 2000, last_up = 200\<rparr>"
    by simp
  with s run_disabled_1 run_disabled_2 show ?thesis by blast
qed

end
